theory Spec2Isabelle
  imports Complex_Main "HOL-Library.Sublist"
begin

section \<open>Numbers: numpy's float64, without rounding\<close>

text \<open>
  Every number of \<^verbatim>\<open>curlyBrace\<close> is a numpy float64. The model keeps the three
  non-finite values of a float and takes the finite ones as exact reals: rounding,
  overflow and the sign of zero are left out (a zero divisor is read as +0). numpy
  raises no exception on a float64: a division by zero or a logarithm outside its domain
  gives an infinity or NaN (and a warning).
\<close>

datatype npfloat = Fin real | PInf | NInf | NaN

instantiation npfloat :: uminus
begin

fun uminus_npfloat :: "npfloat \<Rightarrow> npfloat" where
  "uminus_npfloat (Fin a) = Fin (- a)"
| "uminus_npfloat PInf = NInf"
| "uminus_npfloat NInf = PInf"
| "uminus_npfloat NaN = NaN"

instance ..

end

instantiation npfloat :: plus
begin

fun plus_npfloat :: "npfloat \<Rightarrow> npfloat \<Rightarrow> npfloat" where
  "plus_npfloat (Fin a) (Fin b) = Fin (a + b)"
| "plus_npfloat NaN y = NaN"
| "plus_npfloat x NaN = NaN"
| "plus_npfloat PInf NInf = NaN"
| "plus_npfloat NInf PInf = NaN"
| "plus_npfloat PInf y = PInf"
| "plus_npfloat x PInf = PInf"
| "plus_npfloat NInf y = NInf"
| "plus_npfloat x NInf = NInf"

instance ..

end

instantiation npfloat :: minus
begin

definition minus_npfloat :: "npfloat \<Rightarrow> npfloat \<Rightarrow> npfloat" where
  "minus_npfloat x y = x + (- y)"

instance ..

end

instantiation npfloat :: times
begin

fun times_npfloat :: "npfloat \<Rightarrow> npfloat \<Rightarrow> npfloat" where
  "times_npfloat (Fin a) (Fin b) = Fin (a * b)"
| "times_npfloat NaN y = NaN"
| "times_npfloat x NaN = NaN"
| "times_npfloat (Fin a) PInf = (if a = 0 then NaN else if 0 < a then PInf else NInf)"
| "times_npfloat (Fin a) NInf = (if a = 0 then NaN else if 0 < a then NInf else PInf)"
| "times_npfloat PInf (Fin b) = (if b = 0 then NaN else if 0 < b then PInf else NInf)"
| "times_npfloat NInf (Fin b) = (if b = 0 then NaN else if 0 < b then NInf else PInf)"
| "times_npfloat PInf PInf = PInf"
| "times_npfloat PInf NInf = NInf"
| "times_npfloat NInf PInf = NInf"
| "times_npfloat NInf NInf = PInf"

instance ..

end

instantiation npfloat :: inverse
begin

fun inverse_npfloat :: "npfloat \<Rightarrow> npfloat" where
  "inverse_npfloat (Fin a) = (if a = 0 then PInf else Fin (1 / a))"
| "inverse_npfloat PInf = Fin 0"
| "inverse_npfloat NInf = Fin 0"
| "inverse_npfloat NaN = NaN"

fun divide_npfloat :: "npfloat \<Rightarrow> npfloat \<Rightarrow> npfloat" where
  "divide_npfloat (Fin a) (Fin b) =
     (if b = 0 then (if a = 0 then NaN else if 0 < a then PInf else NInf)
      else Fin (a / b))"
| "divide_npfloat NaN y = NaN"
| "divide_npfloat x NaN = NaN"
| "divide_npfloat (Fin a) PInf = Fin 0"
| "divide_npfloat (Fin a) NInf = Fin 0"
| "divide_npfloat PInf (Fin b) = (if 0 \<le> b then PInf else NInf)"
| "divide_npfloat NInf (Fin b) = (if 0 \<le> b then NInf else PInf)"
| "divide_npfloat PInf PInf = NaN"
| "divide_npfloat PInf NInf = NaN"
| "divide_npfloat NInf PInf = NaN"
| "divide_npfloat NInf NInf = NaN"

instance ..

end

text \<open>Comparisons: every comparison with NaN is false.\<close>

instantiation npfloat :: ord
begin

fun less_eq_npfloat :: "npfloat \<Rightarrow> npfloat \<Rightarrow> bool" where
  "less_eq_npfloat (Fin a) (Fin b) = (a \<le> b)"
| "less_eq_npfloat NaN y = False"
| "less_eq_npfloat x NaN = False"
| "less_eq_npfloat NInf y = True"
| "less_eq_npfloat x PInf = True"
| "less_eq_npfloat PInf y = False"
| "less_eq_npfloat x NInf = False"

fun less_npfloat :: "npfloat \<Rightarrow> npfloat \<Rightarrow> bool" where
  "less_npfloat (Fin a) (Fin b) = (a < b)"
| "less_npfloat NaN y = False"
| "less_npfloat x NaN = False"
| "less_npfloat PInf y = False"
| "less_npfloat x NInf = False"
| "less_npfloat NInf y = True"
| "less_npfloat x PInf = True"

instance ..

end

subsection \<open>The numpy functions the code calls\<close>

text \<open>\<^verbatim>\<open>np.log\<close>: \<open>-inf\<close> at zero and NaN below it, with a warning and no exception.\<close>

fun np_log :: "npfloat \<Rightarrow> npfloat" where
  "np_log (Fin a) = (if 0 < a then Fin (ln a) else if a = 0 then NInf else NaN)"
| "np_log PInf = PInf"
| "np_log NInf = NaN"
| "np_log NaN = NaN"

fun np_exp :: "npfloat \<Rightarrow> npfloat" where
  "np_exp (Fin a) = Fin (exp a)"
| "np_exp PInf = PInf"
| "np_exp NInf = Fin 0"
| "np_exp NaN = NaN"

fun np_cos :: "npfloat \<Rightarrow> npfloat" where
  "np_cos (Fin a) = Fin (cos a)"
| "np_cos x = NaN"

fun np_sin :: "npfloat \<Rightarrow> npfloat" where
  "np_sin (Fin a) = Fin (sin a)"
| "np_sin x = NaN"

text \<open>\<^verbatim>\<open>np.hypot\<close>: an infinite argument wins over NaN.\<close>

fun np_hypot :: "npfloat \<Rightarrow> npfloat \<Rightarrow> npfloat" where
  "np_hypot (Fin a) (Fin b) = Fin (sqrt (a\<^sup>2 + b\<^sup>2))"
| "np_hypot PInf y = PInf"
| "np_hypot NInf y = PInf"
| "np_hypot x PInf = PInf"
| "np_hypot x NInf = PInf"
| "np_hypot x y = NaN"

text \<open>
  The angle of the point \<open>(x, y)\<close> in \<open>(-\<pi>, \<pi>]\<close>, as C's \<^verbatim>\<open>atan2(y, x)\<close> gives it
  on finite arguments; \<open>atan2(0, 0) = 0\<close>.
\<close>

definition arctan2 :: "real \<Rightarrow> real \<Rightarrow> real" where
  "arctan2 y x =
     (if 0 < x then arctan (y / x)
      else if x < 0 then (if 0 \<le> y then arctan (y / x) + pi else arctan (y / x) - pi)
      else if 0 < y then pi / 2
      else if y < 0 then - (pi / 2)
      else 0)"

fun np_arctan2 :: "npfloat \<Rightarrow> npfloat \<Rightarrow> npfloat" where
  "np_arctan2 (Fin y) (Fin x) = Fin (arctan2 y x)"
| "np_arctan2 NaN x = NaN"
| "np_arctan2 y NaN = NaN"
| "np_arctan2 (Fin y) PInf = Fin 0"
| "np_arctan2 (Fin y) NInf = Fin (if 0 \<le> y then pi else - pi)"
| "np_arctan2 PInf (Fin x) = Fin (pi / 2)"
| "np_arctan2 NInf (Fin x) = Fin (- (pi / 2))"
| "np_arctan2 PInf PInf = Fin (pi / 4)"
| "np_arctan2 PInf NInf = Fin (3 * pi / 4)"
| "np_arctan2 NInf PInf = Fin (- (pi / 4))"
| "np_arctan2 NInf NInf = Fin (- (3 * pi / 4))"

definition np_degrees :: "npfloat \<Rightarrow> npfloat" where
  "np_degrees x = x * Fin (180 / pi)"

text \<open>
  The float \<^verbatim>\<open>%\<close> of Python and numpy: the result has the sign of the divisor,
  \<open>x - floor (x / m) * m\<close> on finite arguments.
\<close>

fun np_remainder :: "npfloat \<Rightarrow> npfloat \<Rightarrow> npfloat" where
  "np_remainder (Fin a) (Fin m) =
     (if m = 0 then NaN else Fin (a - of_int \<lfloor>a / m\<rfloor> * m))"
| "np_remainder (Fin a) PInf = (if 0 \<le> a then Fin a else PInf)"
| "np_remainder (Fin a) NInf = (if a \<le> 0 then Fin a else NInf)"
| "np_remainder x m = NaN"

text \<open>
  \<^verbatim>\<open>np.linspace(start, stop, num)\<close> with its default \<^verbatim>\<open>endpoint=True\<close>, for
  \<open>num > 1\<close>: the samples \<open>i * step + start\<close> with \<open>step = (stop - start) / (num - 1)\<close>,
  and the last sample overwritten with \<open>stop\<close> itself. (When the step is zero numpy
  computes \<open>(i / (num - 1)) * (stop - start) + start\<close> instead, the same value in exact
  arithmetic; here \<open>stop - start\<close> is a quarter turn or NaN, never zero.)
\<close>

definition np_linspace :: "npfloat \<Rightarrow> npfloat \<Rightarrow> nat \<Rightarrow> npfloat list" where
  "np_linspace start stop num =
     (let step = (stop - start) / Fin (real (num - 1))
      in map (\<lambda>i. Fin (real i) * step + start) [0 ..< num - 1] @ [stop])"

section \<open>The host: what the figure and the axes answer\<close>

text \<open>
  matplotlib is not part of the repository. The record holds the answers of the
  \<^verbatim>\<open>fig\<close> and \<^verbatim>\<open>ax\<close> objects to the queries the code makes: the resolution, the
  axes' extent in inches (the bounding box after \<^verbatim>\<open>dpi_scale_trans.inverted()\<close>),
  the limits and the names of the scales of both axes.
\<close>

record host =
  dpi :: npfloat
  bbox_width :: npfloat
  bbox_height :: npfloat
  get_xlim :: "npfloat \<times> npfloat"
  get_ylim :: "npfloat \<times> npfloat"
  get_xscale :: string
  get_yscale :: string

text \<open>The calls made on the axes: \<^verbatim>\<open>ax.plot(xs, ys)\<close> and \<^verbatim>\<open>ax.axes.text(x, y, s, rotation)\<close>.\<close>

datatype draw_call =
  Plot "npfloat list" "npfloat list"
| Text npfloat npfloat string npfloat

datatype py_error = UnboundLocalError

type_synonym point = "npfloat \<times> npfloat"

text \<open>\<^verbatim>\<open>getAxSize\<close> (lines 42-74): the extent in inches times the resolution.\<close>

definition getAxSize :: "host \<Rightarrow> npfloat \<times> npfloat" where
  "getAxSize h = (bbox_width h * dpi h, bbox_height h * dpi h)"

text \<open>The test \<^verbatim>\<open>'log' in ax.get_xaxis().get_scale()\<close>: a substring test on the name.\<close>

definition is_log :: "string \<Rightarrow> bool" where
  "is_log name = sublist ''log'' name"

section \<open>curlyBrace, stage by stage\<close>

text \<open>
  Lines 179-233: the logarithm on a logarithmic axis (of both endpoints and both limits),
  the two scale factors, and the endpoints in pixels.
\<close>

record frame =
  pt1 :: point
  pt2 :: point
  ax_xlim :: "npfloat \<times> npfloat"
  ax_ylim :: "npfloat \<times> npfloat"
  xscale :: npfloat
  yscale :: npfloat

definition to_frame :: "host \<Rightarrow> point \<Rightarrow> point \<Rightarrow> bool \<Rightarrow> frame" where
  "to_frame h p1 p2 bool_auto =
     (let (ax_width, ax_height) = getAxSize h;
          (pt1x, pt2x, xlim) =
            (if is_log (get_xscale h)
             then (np_log (fst p1), np_log (fst p2),
                   (np_log (fst (get_xlim h)), np_log (snd (get_xlim h))))
             else (fst p1, fst p2, get_xlim h));
          (pt1y, pt2y, ylim) =
            (if is_log (get_yscale h)
             then (np_log (snd p1), np_log (snd p2),
                   (np_log (fst (get_ylim h)), np_log (snd (get_ylim h))))
             else (snd p1, snd p2, get_ylim h));
          xscale0 = ax_width / (snd xlim - fst xlim);
          yscale0 = ax_height / (snd ylim - fst ylim);
          xs = (if bool_auto then xscale0 else Fin 1);
          ys = (if bool_auto then yscale0 else Fin 1)
      in \<lparr> pt1 = ((pt1x - fst xlim) * xs, (pt1y - fst ylim) * ys),
           pt2 = ((pt2x - fst xlim) * xs, (pt2y - fst ylim) * ys),
           ax_xlim = xlim, ax_ylim = ylim, xscale = xs, yscale = ys \<rparr>)"

text \<open>Line 236: the angle. Line 239: the radius.\<close>

definition brace_theta :: "frame \<Rightarrow> npfloat" where
  "brace_theta f =
     np_arctan2 (snd (pt2 f) - snd (pt1 f)) (fst (pt2 f) - fst (pt1 f))"

definition brace_r :: "frame \<Rightarrow> npfloat \<Rightarrow> npfloat" where
  "brace_r f k_r =
     np_hypot (fst (pt2 f) - fst (pt1 f)) (snd (pt2 f) - snd (pt1 f)) * k_r"

text \<open>
  Lines 241-275: the four centres, the 50 angles \<open>q\<close> and their reversal \<open>t\<close>, and the
  four arcs, still in pixels. An arc is the pair of its x and y sequences.
\<close>

record arcs =
  arc1 :: "npfloat list \<times> npfloat list"
  arc2 :: "npfloat list \<times> npfloat list"
  arc3 :: "npfloat list \<times> npfloat list"
  arc4 :: "npfloat list \<times> npfloat list"

definition arcs_pixel :: "frame \<Rightarrow> npfloat \<Rightarrow> npfloat \<Rightarrow> arcs" where
  "arcs_pixel f theta r =
     (let p1x = fst (pt1 f); p1y = snd (pt1 f); p2x = fst (pt2 f); p2y = snd (pt2 f);
          x11 = p1x + r * np_cos theta;
          y11 = p1y + r * np_sin theta;
          x22 = (p2x + p1x) / Fin 2 - Fin 2 * r * np_sin theta - r * np_cos theta;
          y22 = (p2y + p1y) / Fin 2 + Fin 2 * r * np_cos theta - r * np_sin theta;
          x33 = (p2x + p1x) / Fin 2 - Fin 2 * r * np_sin theta + r * np_cos theta;
          y33 = (p2y + p1y) / Fin 2 + Fin 2 * r * np_cos theta + r * np_sin theta;
          x44 = p2x - r * np_cos theta;
          y44 = p2y - r * np_sin theta;
          q = np_linspace theta (theta + Fin pi / Fin 2) 50;
          t = rev q
      in \<lparr> arc1 = (map (\<lambda>a. r * np_cos (a + Fin pi / Fin 2) + x11) t,
                    map (\<lambda>a. r * np_sin (a + Fin pi / Fin 2) + y11) t),
           arc2 = (map (\<lambda>a. r * np_cos (a - Fin pi / Fin 2) + x22) q,
                    map (\<lambda>a. r * np_sin (a - Fin pi / Fin 2) + y22) q),
           arc3 = (map (\<lambda>a. r * np_cos (a + Fin pi) + x33) q,
                    map (\<lambda>a. r * np_sin (a + Fin pi) + y33) q),
           arc4 = (map (\<lambda>a. r * np_cos a + x44) t,
                    map (\<lambda>a. r * np_sin a + y44) t) \<rparr>)"

text \<open>
  Lines 277-309: back to the coordinates of the axes, one coordinate at a time: divide
  by the scale factor, add the lower limit, and exponentiate on a logarithmic axis.
\<close>

definition back_x :: "host \<Rightarrow> frame \<Rightarrow> npfloat \<Rightarrow> npfloat" where
  "back_x h f v =
     (let w = v / xscale f + fst (ax_xlim f)
      in if is_log (get_xscale h) then np_exp w else w)"

definition back_y :: "host \<Rightarrow> frame \<Rightarrow> npfloat \<Rightarrow> npfloat" where
  "back_y h f v =
     (let w = v / yscale f + fst (ax_ylim f)
      in if is_log (get_yscale h) then np_exp w else w)"

definition back_arc ::
  "host \<Rightarrow> frame \<Rightarrow> npfloat list \<times> npfloat list \<Rightarrow> npfloat list \<times> npfloat list" where
  "back_arc h f a = (map (back_x h f) (fst a), map (back_y h f) (snd a))"

definition arcs_data :: "host \<Rightarrow> frame \<Rightarrow> arcs \<Rightarrow> arcs" where
  "arcs_data h f a =
     \<lparr> arc1 = back_arc h f (arc1 a), arc2 = back_arc h f (arc2 a),
       arc3 = back_arc h f (arc3 a), arc4 = back_arc h f (arc4 a) \<rparr>"

text \<open>
  Lines 323-350: the label. \<^verbatim>\<open>rotation\<close> is a local variable that only the three
  branches assign: when none of them is taken, reading it raises
  \<^verbatim>\<open>UnboundLocalError\<close>. The first \<^verbatim>\<open>if\<close> stands alone; the second has the
  \<^verbatim>\<open>elif\<close>.
\<close>

definition label_call :: "npfloat \<Rightarrow> point \<Rightarrow> string \<Rightarrow> int \<Rightarrow> py_error + draw_call" where
  "label_call theta anchor str_text int_line_num =
     (let str_temp = replicate (nat int_line_num) (CHR 0x0A);
          ang = np_remainder (np_degrees theta) (Fin 360);
          (rotation1, str_text1) =
            (if Fin 0 \<le> ang \<and> ang \<le> Fin 90
             then (Some ang, str_text @ str_temp)
             else (None, str_text));
          (rotation2, str_text2) =
            (if Fin 90 < ang \<and> ang < Fin 270
             then (Some (ang + Fin 180), str_temp @ str_text1)
             else if Fin 270 \<le> ang \<and> ang \<le> Fin 360
             then (Some ang, str_text1 @ str_temp)
             else (rotation1, str_text1))
      in case rotation2 of
           None \<Rightarrow> Inl UnboundLocalError
         | Some rotation \<Rightarrow> Inr (Text (fst anchor) (snd anchor) str_text2 rotation))"

text \<open>What \<^verbatim>\<open>curlyBrace\<close> returns (line 361).\<close>

record brace_result =
  theta :: npfloat
  summit :: point
  result_arcs :: arcs

text \<open>
  The geometry (lines 179-321 and 356-361): the returned tuple. The summit is the last
  point of \<^verbatim>\<open>arc2\<close>, read after the conversion back (line 321).
\<close>

definition brace_geometry :: "host \<Rightarrow> point \<Rightarrow> point \<Rightarrow> npfloat \<Rightarrow> bool \<Rightarrow> brace_result" where
  "brace_geometry h p1 p2 k_r bool_auto =
     (let f = to_frame h p1 p2 bool_auto;
          th = brace_theta f;
          r = brace_r f k_r;
          a = arcs_data h f (arcs_pixel f th r)
      in \<lparr> theta = th,
           summit = (last (fst (arc2 a)), last (snd (arc2 a))),
           result_arcs = a \<rparr>)"

text \<open>
  The whole function (lines 76-361). The value is the list of the calls made on the
  axes, in order, and the outcome: the returned tuple, or the exception. The six
  \<^verbatim>\<open>ax.plot\<close> calls (lines 312-319) come first, so they are made even when the
  label then fails. The two connecting segments end at index 1 of \<^verbatim>\<open>arc2\<close> and
  \<^verbatim>\<open>arc4\<close>; every arc has 50 points, so the reads are in range.
\<close>

definition curlyBrace ::
  "host \<Rightarrow> point \<Rightarrow> point \<Rightarrow> npfloat \<Rightarrow> bool \<Rightarrow> string \<Rightarrow> int
     \<Rightarrow> draw_call list \<times> (py_error + brace_result)" where
  "curlyBrace h p1 p2 k_r bool_auto str_text int_line_num =
     (let res = brace_geometry h p1 p2 k_r bool_auto;
          a = result_arcs res;
          plots =
            [Plot (fst (arc1 a)) (snd (arc1 a)), Plot (fst (arc2 a)) (snd (arc2 a)),
             Plot (fst (arc3 a)) (snd (arc3 a)), Plot (fst (arc4 a)) (snd (arc4 a)),
             Plot [last (fst (arc1 a)), fst (arc2 a) ! 1] [last (snd (arc1 a)), snd (arc2 a) ! 1],
             Plot [last (fst (arc3 a)), fst (arc4 a) ! 1] [last (snd (arc3 a)), snd (arc4 a) ! 1]]
      in if str_text \<noteq> []
         then (case label_call (theta res) (last (fst (arc2 a)), last (snd (arc2 a)))
                      str_text int_line_num of
                 Inl e \<Rightarrow> (plots, Inl e)
               | Inr c \<Rightarrow> (plots @ [c], Inr res))
         else (plots, Inr res))"


section \<open>Calls on which the arithmetic stays finite\<close>

text \<open>
  The calls the data model of the specification admits: finite endpoints and gain, a
  positive extent in pixels, two distinct finite limits on each axis, and on a
  logarithmic axis strictly positive limits and coordinates. On them no division by zero
  and no logarithm outside its domain occurs.
\<close>

fun is_fin :: "npfloat \<Rightarrow> bool" where
  "is_fin (Fin a) = True"
| "is_fin x = False"

fun valid_extent :: "npfloat \<times> npfloat \<Rightarrow> bool" where
  "valid_extent (Fin w, Fin ht) = (0 < w \<and> 0 < ht)"
| "valid_extent e = False"

fun valid_axis :: "string \<Rightarrow> npfloat \<times> npfloat \<Rightarrow> npfloat \<Rightarrow> npfloat \<Rightarrow> bool" where
  "valid_axis name (Fin lo, Fin hi) (Fin a) (Fin b) =
     (lo \<noteq> hi \<and> (is_log name \<longrightarrow> 0 < lo \<and> 0 < hi \<and> 0 < a \<and> 0 < b))"
| "valid_axis name lims c1 c2 = False"

definition valid_call :: "host \<Rightarrow> point \<Rightarrow> point \<Rightarrow> npfloat \<Rightarrow> bool" where
  "valid_call h p1 p2 k_r =
     (valid_extent (getAxSize h) \<and>
      valid_axis (get_xscale h) (get_xlim h) (fst p1) (fst p2) \<and>
      valid_axis (get_yscale h) (get_ylim h) (snd p1) (snd p2) \<and>
      is_fin k_r)"

section \<open>Calls outside the domain of the logarithm\<close>

text \<open>
  A finite coordinate that is zero or negative, and one that is negative: on a
  logarithmic axis \<open>np_log\<close> sends the first kind to \<open>-inf\<close> or NaN and the second to
  NaN. \<open>nan_arcs\<close> is the geometry in which every coordinate of every arc is NaN.
\<close>

fun is_nonpositive :: "npfloat \<Rightarrow> bool" where
  "is_nonpositive (Fin a) = (a \<le> 0)"
| "is_nonpositive x = False"

fun is_negative :: "npfloat \<Rightarrow> bool" where
  "is_negative (Fin a) = (a < 0)"
| "is_negative x = False"

definition nan_arcs :: arcs where
  "nan_arcs =
     \<lparr> arc1 = (replicate 50 NaN, replicate 50 NaN), arc2 = (replicate 50 NaN, replicate 50 NaN),
       arc3 = (replicate 50 NaN, replicate 50 NaN), arc4 = (replicate 50 NaN, replicate 50 NaN) \<rparr>"

section \<open>The scenario of the specification\<close>

text \<open>
  Linear axes with the limits \<open>(0, 2)\<close> on both. The scenario leaves the extent of the
  axes open; it is taken as 4 by 3 inches at 100 dots per inch.
\<close>

definition scenario_host :: host where
  "scenario_host =
     \<lparr> dpi = Fin 100, bbox_width = Fin 4, bbox_height = Fin 3,
       get_xlim = (Fin 0, Fin 2), get_ylim = (Fin 0, Fin 2),
       get_xscale = ''linear'', get_yscale = ''linear'' \<rparr>"

text \<open>
  A second host, for the logarithmic path: the x axis logarithmic with the limits
  \<open>(1, 100)\<close>, the y axis linear.
\<close>

definition log_host :: host where
  "log_host =
     \<lparr> dpi = Fin 100, bbox_width = Fin 4, bbox_height = Fin 3,
       get_xlim = (Fin 1, Fin 100), get_ylim = (Fin 0, Fin 2),
       get_xscale = ''log'', get_yscale = ''linear'' \<rparr>"


section \<open>Derived quantities used in the proofs\<close>

text \<open>
  The 50 angles of \<^verbatim>\<open>q\<close> as reals, for a finite start: what \<open>np_linspace\<close> gives
  on \<open>Fin a\<close> and \<open>Fin (a + \<pi>/2)\<close> (lemma \<open>linspace_quarter\<close>).
\<close>

definition quarter_turn :: "real \<Rightarrow> real list" where
  "quarter_turn a = map (\<lambda>i. real i * (pi / 2 / 49) + a) [0 ..< 49] @ [a + pi / 2]"

section \<open>The same code over machine arithmetic\<close>

text \<open>
  The sections above read every operation as exact. A float64 operation delivers the
  float64 that stands for its exact result: the result rounded to 53 bits, and an
  infinity when it lies beyond the largest finite float64. The definitions of this
  section are the same lines of the source with that delivery written out: \<open>rnd\<close> is
  applied to the result of every arithmetic operation and of every numpy function, and
  to the constants \<open>\<pi>\<close> and \<open>180/\<pi>\<close>, which are float64 values themselves. With the
  identity for \<open>rnd\<close> these are the definitions above (lemma \<open>curlyBrace_fp_exact\<close>);
  what is proved for every \<open>rnd\<close> holds whatever the rounding is.
\<close>

definition getAxSize_fp :: "(npfloat \<Rightarrow> npfloat) \<Rightarrow> host \<Rightarrow> npfloat \<times> npfloat" where
  "getAxSize_fp rnd h = (rnd (bbox_width h * dpi h), rnd (bbox_height h * dpi h))"

text \<open>Lines 179-233.\<close>

definition to_frame_fp ::
  "(npfloat \<Rightarrow> npfloat) \<Rightarrow> host \<Rightarrow> point \<Rightarrow> point \<Rightarrow> bool \<Rightarrow> frame" where
  "to_frame_fp rnd h p1 p2 bool_auto =
     (let (ax_width, ax_height) = getAxSize_fp rnd h;
          (pt1x, pt2x, xlim) =
            (if is_log (get_xscale h)
             then (rnd (np_log (fst p1)), rnd (np_log (fst p2)),
                   (rnd (np_log (fst (get_xlim h))), rnd (np_log (snd (get_xlim h)))))
             else (fst p1, fst p2, get_xlim h));
          (pt1y, pt2y, ylim) =
            (if is_log (get_yscale h)
             then (rnd (np_log (snd p1)), rnd (np_log (snd p2)),
                   (rnd (np_log (fst (get_ylim h))), rnd (np_log (snd (get_ylim h)))))
             else (snd p1, snd p2, get_ylim h));
          xscale0 = rnd (ax_width / rnd (snd xlim - fst xlim));
          yscale0 = rnd (ax_height / rnd (snd ylim - fst ylim));
          xs = (if bool_auto then xscale0 else Fin 1);
          ys = (if bool_auto then yscale0 else Fin 1)
      in \<lparr> pt1 = (rnd (rnd (pt1x - fst xlim) * xs), rnd (rnd (pt1y - fst ylim) * ys)),
           pt2 = (rnd (rnd (pt2x - fst xlim) * xs), rnd (rnd (pt2y - fst ylim) * ys)),
           ax_xlim = xlim, ax_ylim = ylim, xscale = xs, yscale = ys \<rparr>)"

text \<open>
  Line 236: the angle. Line 239: the radius, the length of the chord in pixels
  (\<^verbatim>\<open>np.hypot\<close>) times the gain.
\<close>

definition brace_theta_fp :: "(npfloat \<Rightarrow> npfloat) \<Rightarrow> frame \<Rightarrow> npfloat" where
  "brace_theta_fp rnd f =
     rnd (np_arctan2 (rnd (snd (pt2 f) - snd (pt1 f))) (rnd (fst (pt2 f) - fst (pt1 f))))"

definition brace_chord_fp :: "(npfloat \<Rightarrow> npfloat) \<Rightarrow> frame \<Rightarrow> npfloat" where
  "brace_chord_fp rnd f =
     rnd (np_hypot (rnd (fst (pt2 f) - fst (pt1 f))) (rnd (snd (pt2 f) - snd (pt1 f))))"

definition brace_r_fp :: "(npfloat \<Rightarrow> npfloat) \<Rightarrow> frame \<Rightarrow> npfloat \<Rightarrow> npfloat" where
  "brace_r_fp rnd f k_r = rnd (brace_chord_fp rnd f * k_r)"

definition np_linspace_fp ::
  "(npfloat \<Rightarrow> npfloat) \<Rightarrow> npfloat \<Rightarrow> npfloat \<Rightarrow> nat \<Rightarrow> npfloat list" where
  "np_linspace_fp rnd start stop num =
     (let step = rnd (rnd (stop - start) / Fin (real (num - 1)))
      in map (\<lambda>i. rnd (rnd (Fin (real i) * step) + start)) [0 ..< num - 1] @ [stop])"

text \<open>Lines 241-275.\<close>

definition arcs_pixel_fp ::
  "(npfloat \<Rightarrow> npfloat) \<Rightarrow> frame \<Rightarrow> npfloat \<Rightarrow> npfloat \<Rightarrow> arcs" where
  "arcs_pixel_fp rnd f th r =
     (let p1x = fst (pt1 f); p1y = snd (pt1 f); p2x = fst (pt2 f); p2y = snd (pt2 f);
          c = rnd (np_cos th);
          s = rnd (np_sin th);
          x11 = rnd (p1x + rnd (r * c));
          y11 = rnd (p1y + rnd (r * s));
          x22 = rnd (rnd (rnd (rnd (p2x + p1x) / Fin 2) - rnd (rnd (Fin 2 * r) * s)) - rnd (r * c));
          y22 = rnd (rnd (rnd (rnd (p2y + p1y) / Fin 2) + rnd (rnd (Fin 2 * r) * c)) - rnd (r * s));
          x33 = rnd (rnd (rnd (rnd (p2x + p1x) / Fin 2) - rnd (rnd (Fin 2 * r) * s)) + rnd (r * c));
          y33 = rnd (rnd (rnd (rnd (p2y + p1y) / Fin 2) + rnd (rnd (Fin 2 * r) * c)) + rnd (r * s));
          x44 = rnd (p2x - rnd (r * c));
          y44 = rnd (p2y - rnd (r * s));
          half = rnd (rnd (Fin pi) / Fin 2);
          q = np_linspace_fp rnd th (rnd (th + half)) 50;
          t = rev q
      in \<lparr> arc1 = (map (\<lambda>a. rnd (rnd (r * rnd (np_cos (rnd (a + half)))) + x11)) t,
                    map (\<lambda>a. rnd (rnd (r * rnd (np_sin (rnd (a + half)))) + y11)) t),
           arc2 = (map (\<lambda>a. rnd (rnd (r * rnd (np_cos (rnd (a - half)))) + x22)) q,
                    map (\<lambda>a. rnd (rnd (r * rnd (np_sin (rnd (a - half)))) + y22)) q),
           arc3 = (map (\<lambda>a. rnd (rnd (r * rnd (np_cos (rnd (a + rnd (Fin pi))))) + x33)) q,
                    map (\<lambda>a. rnd (rnd (r * rnd (np_sin (rnd (a + rnd (Fin pi))))) + y33)) q),
           arc4 = (map (\<lambda>a. rnd (rnd (r * rnd (np_cos a)) + x44)) t,
                    map (\<lambda>a. rnd (rnd (r * rnd (np_sin a)) + y44)) t) \<rparr>)"

text \<open>Lines 277-309.\<close>

definition back_x_fp :: "(npfloat \<Rightarrow> npfloat) \<Rightarrow> host \<Rightarrow> frame \<Rightarrow> npfloat \<Rightarrow> npfloat" where
  "back_x_fp rnd h f v =
     (let w = rnd (rnd (v / xscale f) + fst (ax_xlim f))
      in if is_log (get_xscale h) then rnd (np_exp w) else w)"

definition back_y_fp :: "(npfloat \<Rightarrow> npfloat) \<Rightarrow> host \<Rightarrow> frame \<Rightarrow> npfloat \<Rightarrow> npfloat" where
  "back_y_fp rnd h f v =
     (let w = rnd (rnd (v / yscale f) + fst (ax_ylim f))
      in if is_log (get_yscale h) then rnd (np_exp w) else w)"

definition back_arc_fp ::
  "(npfloat \<Rightarrow> npfloat) \<Rightarrow> host \<Rightarrow> frame \<Rightarrow> npfloat list \<times> npfloat list
     \<Rightarrow> npfloat list \<times> npfloat list" where
  "back_arc_fp rnd h f a = (map (back_x_fp rnd h f) (fst a), map (back_y_fp rnd h f) (snd a))"

definition arcs_data_fp :: "(npfloat \<Rightarrow> npfloat) \<Rightarrow> host \<Rightarrow> frame \<Rightarrow> arcs \<Rightarrow> arcs" where
  "arcs_data_fp rnd h f a =
     \<lparr> arc1 = back_arc_fp rnd h f (arc1 a), arc2 = back_arc_fp rnd h f (arc2 a),
       arc3 = back_arc_fp rnd h f (arc3 a), arc4 = back_arc_fp rnd h f (arc4 a) \<rparr>"

text \<open>Line 330: the angle in degrees modulo 360. Lines 323-350: the label.\<close>

definition label_angle_fp :: "(npfloat \<Rightarrow> npfloat) \<Rightarrow> npfloat \<Rightarrow> npfloat" where
  "label_angle_fp rnd th =
     rnd (np_remainder (rnd (th * rnd (Fin (180 / pi)))) (Fin 360))"

definition label_call_fp ::
  "(npfloat \<Rightarrow> npfloat) \<Rightarrow> npfloat \<Rightarrow> point \<Rightarrow> string \<Rightarrow> int \<Rightarrow> py_error + draw_call" where
  "label_call_fp rnd th anchor str_text int_line_num =
     (let str_temp = replicate (nat int_line_num) (CHR 0x0A);
          ang = label_angle_fp rnd th;
          (rotation1, str_text1) =
            (if Fin 0 \<le> ang \<and> ang \<le> Fin 90
             then (Some ang, str_text @ str_temp)
             else (None, str_text));
          (rotation2, str_text2) =
            (if Fin 90 < ang \<and> ang < Fin 270
             then (Some (rnd (ang + Fin 180)), str_temp @ str_text1)
             else if Fin 270 \<le> ang \<and> ang \<le> Fin 360
             then (Some ang, str_text1 @ str_temp)
             else (rotation1, str_text1))
      in case rotation2 of
           None \<Rightarrow> Inl UnboundLocalError
         | Some rotation \<Rightarrow> Inr (Text (fst anchor) (snd anchor) str_text2 rotation))"

text \<open>Lines 179-321 and 356-361, and the whole function.\<close>

definition brace_geometry_fp ::
  "(npfloat \<Rightarrow> npfloat) \<Rightarrow> host \<Rightarrow> point \<Rightarrow> point \<Rightarrow> npfloat \<Rightarrow> bool \<Rightarrow> brace_result" where
  "brace_geometry_fp rnd h p1 p2 k_r bool_auto =
     (let f = to_frame_fp rnd h p1 p2 bool_auto;
          th = brace_theta_fp rnd f;
          r = brace_r_fp rnd f k_r;
          a = arcs_data_fp rnd h f (arcs_pixel_fp rnd f th r)
      in \<lparr> theta = th,
           summit = (last (fst (arc2 a)), last (snd (arc2 a))),
           result_arcs = a \<rparr>)"

definition curlyBrace_fp ::
  "(npfloat \<Rightarrow> npfloat) \<Rightarrow> host \<Rightarrow> point \<Rightarrow> point \<Rightarrow> npfloat \<Rightarrow> bool \<Rightarrow> string \<Rightarrow> int
     \<Rightarrow> draw_call list \<times> (py_error + brace_result)" where
  "curlyBrace_fp rnd h p1 p2 k_r bool_auto str_text int_line_num =
     (let res = brace_geometry_fp rnd h p1 p2 k_r bool_auto;
          a = result_arcs res;
          plots =
            [Plot (fst (arc1 a)) (snd (arc1 a)), Plot (fst (arc2 a)) (snd (arc2 a)),
             Plot (fst (arc3 a)) (snd (arc3 a)), Plot (fst (arc4 a)) (snd (arc4 a)),
             Plot [last (fst (arc1 a)), fst (arc2 a) ! 1] [last (snd (arc1 a)), snd (arc2 a) ! 1],
             Plot [last (fst (arc3 a)), fst (arc4 a) ! 1] [last (snd (arc3 a)), snd (arc4 a) ! 1]]
      in if str_text \<noteq> []
         then (case label_call_fp rnd (theta res) (last (fst (arc2 a)), last (snd (arc2 a)))
                      str_text int_line_num of
                 Inl e \<Rightarrow> (plots, Inl e)
               | Inr c \<Rightarrow> (plots @ [c], Inr res))
         else (plots, Inr res))"

subsection \<open>The range of float64\<close>

text \<open>
  The largest finite float64 is \<open>2 ^ 1024 - 2 ^ 971\<close>, about \<open>1.797e308\<close>. \<open>overflow\<close> delivers a
  result inside the range unchanged and a result beyond it as an infinity; it leaves
  the rounding to 53 bits out. (A float64 operation still delivers the largest float64
  for an exact result less than half a unit in the last place beyond it.)
\<close>

definition float_max :: real where
  "float_max = 2 ^ 1024 - 2 ^ 971"

fun overflow :: "npfloat \<Rightarrow> npfloat" where
  "overflow (Fin a) =
     (if float_max < a then PInf else if a < - float_max then NInf else Fin a)"
| "overflow PInf = PInf"
| "overflow NInf = NInf"
| "overflow NaN = NaN"

section \<open>The angle and the radius, in reals\<close>





lemma arctan2_swap:
  assumes "x \<noteq> 0 \<or> y \<noteq> 0"
  shows "arctan2 (- y) (- x) = (if 0 < arctan2 y x then arctan2 y x - pi else arctan2 y x + pi)"
proof -
  have neg: "x < 0 \<Longrightarrow> 0 \<le> y \<Longrightarrow> arctan (y / x) \<le> 0"
    by (simp add: divide_nonneg_neg arctan_le_zero_iff)
  have pos: "x < 0 \<Longrightarrow> y < 0 \<Longrightarrow> 0 < arctan (y / x)"
    by (simp add: divide_neg_neg zero_less_arctan_iff)
  have pos': "0 < x \<Longrightarrow> 0 < y \<Longrightarrow> 0 < arctan (y / x)"
    by (simp add: zero_less_arctan_iff)
  have neg': "0 < x \<Longrightarrow> y \<le> 0 \<Longrightarrow> arctan (y / x) \<le> 0"
    by (simp add: divide_nonpos_pos arctan_le_zero_iff)
  have a: "- (pi / 2) < arctan (y / x)" "arctan (y / x) < pi / 2"
    by (rule arctan_lbound, rule arctan_ubound)
  consider "0 < x" | "x < 0" | "x = 0" by linarith
  then show ?thesis
  proof cases
    case 1
    then show ?thesis
      using pos' neg' a by (cases "0 < y") (auto simp: arctan2_def)
  next
    case 2
    then show ?thesis
      using pos neg a pi_gt_zero by (cases "0 \<le> y") (auto simp: arctan2_def)
  next
    case 3
    then show ?thesis
      using assms pi_gt_zero by (auto simp: arctan2_def)
  qed
qed

section \<open>The frame of a valid call\<close>

lemma valid_extentD:
  "valid_extent e \<Longrightarrow> \<exists>w ht. e = (Fin w, Fin ht) \<and> 0 < w \<and> 0 < ht"
  by (cases e rule: valid_extent.cases) auto

lemma valid_axisD:
  "valid_axis name lims c1 c2 \<Longrightarrow>
     \<exists>lo hi a b. lims = (Fin lo, Fin hi) \<and> c1 = Fin a \<and> c2 = Fin b \<and> lo \<noteq> hi \<and>
       (is_log name \<longrightarrow> 0 < lo \<and> 0 < hi \<and> 0 < a \<and> 0 < b)"
  by (cases "(name, lims, c1, c2)" rule: valid_axis.cases) auto

lemma is_finD: "is_fin x \<Longrightarrow> \<exists>a. x = Fin a"
  by (cases x) auto

lemma valid_callE:
  assumes "valid_call h p1 p2 k_r"
  obtains w ht xlo xhi ylo yhi a1 b1 a2 b2 k where
    "getAxSize h = (Fin w, Fin ht)" "0 < w" "0 < ht"
    "get_xlim h = (Fin xlo, Fin xhi)" "xlo \<noteq> xhi"
    "get_ylim h = (Fin ylo, Fin yhi)" "ylo \<noteq> yhi"
    "p1 = (Fin a1, Fin b1)" "p2 = (Fin a2, Fin b2)" "k_r = Fin k"
    "is_log (get_xscale h) \<longrightarrow> 0 < xlo \<and> 0 < xhi \<and> 0 < a1 \<and> 0 < a2"
    "is_log (get_yscale h) \<longrightarrow> 0 < ylo \<and> 0 < yhi \<and> 0 < b1 \<and> 0 < b2"
proof -
  from assms have e: "valid_extent (getAxSize h)"
    and x: "valid_axis (get_xscale h) (get_xlim h) (fst p1) (fst p2)"
    and y: "valid_axis (get_yscale h) (get_ylim h) (snd p1) (snd p2)"
    and k: "is_fin k_r"
    by (simp_all add: valid_call_def)
  from valid_extentD [OF e] obtain w ht where 1: "getAxSize h = (Fin w, Fin ht)" "0 < w" "0 < ht"
    by blast
  from valid_axisD [OF x] obtain xlo xhi a1 a2 where 2: "get_xlim h = (Fin xlo, Fin xhi)"
    "fst p1 = Fin a1" "fst p2 = Fin a2" "xlo \<noteq> xhi"
    "is_log (get_xscale h) \<longrightarrow> 0 < xlo \<and> 0 < xhi \<and> 0 < a1 \<and> 0 < a2"
    by blast
  from valid_axisD [OF y] obtain ylo yhi b1 b2 where 3: "get_ylim h = (Fin ylo, Fin yhi)"
    "snd p1 = Fin b1" "snd p2 = Fin b2" "ylo \<noteq> yhi"
    "is_log (get_yscale h) \<longrightarrow> 0 < ylo \<and> 0 < yhi \<and> 0 < b1 \<and> 0 < b2"
    by blast
  from is_finD [OF k] obtain kk where 4: "k_r = Fin kk" by blast
  have 5: "p1 = (Fin a1, Fin b1)" "p2 = (Fin a2, Fin b2)"
    using 2 3 by (simp_all add: prod_eq_iff)
  show ?thesis
    by (rule that [OF 1 2(1) 2(4) 3(1) 3(4) 5 4 2(5) 3(5)])
qed

lemma frame_fin:
  assumes "valid_call h p1 p2 k_r"
  obtains X1 Y1 X2 Y2 xl xh yl yh sx sy where
    "to_frame h p1 p2 bool_auto =
       \<lparr> pt1 = (Fin X1, Fin Y1), pt2 = (Fin X2, Fin Y2),
         ax_xlim = (Fin xl, Fin xh), ax_ylim = (Fin yl, Fin yh),
         xscale = Fin sx, yscale = Fin sy \<rparr>"
    "sx \<noteq> 0" "sy \<noteq> 0"
    "fst p1 = (if is_log (get_xscale h) then Fin (exp (X1 / sx + xl)) else Fin (X1 / sx + xl))"
    "fst p2 = (if is_log (get_xscale h) then Fin (exp (X2 / sx + xl)) else Fin (X2 / sx + xl))"
    "snd p1 = (if is_log (get_yscale h) then Fin (exp (Y1 / sy + yl)) else Fin (Y1 / sy + yl))"
    "snd p2 = (if is_log (get_yscale h) then Fin (exp (Y2 / sy + yl)) else Fin (Y2 / sy + yl))"
proof -
  from assms obtain w ht xlo xhi ylo yhi a1 b1 a2 b2 k where v:
    "getAxSize h = (Fin w, Fin ht)" "0 < w" "0 < ht"
    "get_xlim h = (Fin xlo, Fin xhi)" "xlo \<noteq> xhi"
    "get_ylim h = (Fin ylo, Fin yhi)" "ylo \<noteq> yhi"
    "p1 = (Fin a1, Fin b1)" "p2 = (Fin a2, Fin b2)" "k_r = Fin k"
    "is_log (get_xscale h) \<longrightarrow> 0 < xlo \<and> 0 < xhi \<and> 0 < a1 \<and> 0 < a2"
    "is_log (get_yscale h) \<longrightarrow> 0 < ylo \<and> 0 < yhi \<and> 0 < b1 \<and> 0 < b2"
    by (rule valid_callE)
  define tx where "tx = (\<lambda>v::real. if is_log (get_xscale h) then ln v else v)"
  define ty where "ty = (\<lambda>v::real. if is_log (get_yscale h) then ln v else v)"
  define sx where "sx = (if bool_auto then w / (tx xhi - tx xlo) else 1)"
  define sy where "sy = (if bool_auto then ht / (ty yhi - ty ylo) else 1)"
  have dx: "tx xhi - tx xlo \<noteq> 0" using v by (auto simp: tx_def)
  have dy: "ty yhi - ty ylo \<noteq> 0" using v by (auto simp: ty_def)
  have sx: "sx \<noteq> 0" using dx v by (simp add: sx_def)
  have sy: "sy \<noteq> 0" using dy v by (simp add: sy_def)
  have fr: "to_frame h p1 p2 bool_auto =
       \<lparr> pt1 = (Fin ((tx a1 - tx xlo) * sx), Fin ((ty b1 - ty ylo) * sy)),
         pt2 = (Fin ((tx a2 - tx xlo) * sx), Fin ((ty b2 - ty ylo) * sy)),
         ax_xlim = (Fin (tx xlo), Fin (tx xhi)), ax_ylim = (Fin (ty ylo), Fin (ty yhi)),
         xscale = Fin sx, yscale = Fin sy \<rparr>"
    using v dx dy
    by (simp add: to_frame_def Let_def minus_npfloat_def tx_def ty_def sx_def sy_def)
  show ?thesis
  proof (rule that [OF fr sx sy])
    show "fst p1 = (if is_log (get_xscale h) then Fin (exp ((tx a1 - tx xlo) * sx / sx + tx xlo)) else Fin ((tx a1 - tx xlo) * sx / sx + tx xlo))"
      using v sx by (simp add: tx_def)
    show "fst p2 = (if is_log (get_xscale h) then Fin (exp ((tx a2 - tx xlo) * sx / sx + tx xlo)) else Fin ((tx a2 - tx xlo) * sx / sx + tx xlo))"
      using v sx by (simp add: tx_def)
    show "snd p1 = (if is_log (get_yscale h) then Fin (exp ((ty b1 - ty ylo) * sy / sy + ty ylo)) else Fin ((ty b1 - ty ylo) * sy / sy + ty ylo))"
      using v sy by (simp add: ty_def)
    show "snd p2 = (if is_log (get_yscale h) then Fin (exp ((ty b2 - ty ylo) * sy / sy + ty ylo)) else Fin ((ty b2 - ty ylo) * sy / sy + ty ylo))"
      using v sy by (simp add: ty_def)
  qed
qed

section \<open>The sampled arcs, in pixels\<close>

lemma arctan2_bounds: "- pi < arctan2 y x \<and> arctan2 y x \<le> pi"
proof -
  have a: "- (pi / 2) < arctan (y / x)" "arctan (y / x) < pi / 2"
    by (rule arctan_lbound, rule arctan_ubound)
  have neg: "x < 0 \<Longrightarrow> 0 \<le> y \<Longrightarrow> arctan (y / x) \<le> 0"
    by (simp add: divide_nonneg_neg arctan_le_zero_iff)
  have pos: "x < 0 \<Longrightarrow> y < 0 \<Longrightarrow> 0 < arctan (y / x)"
    by (simp add: divide_neg_neg zero_less_arctan_iff)
  show ?thesis
    using a neg pos pi_gt_zero unfolding arctan2_def by (auto; linarith)
qed

lemma linspace_quarter:
  "np_linspace (Fin a) (Fin (a + pi / 2)) 50 = map Fin (quarter_turn a)"
  by (simp add: np_linspace_def quarter_turn_def minus_npfloat_def Let_def comp_def)

lemma length_quarter_turn: "length (quarter_turn a) = 50"
  by (simp add: quarter_turn_def)

lemma quarter_turn_nonempty: "quarter_turn a \<noteq> []"
  by (simp add: quarter_turn_def)

lemma hd_quarter_turn: "hd (quarter_turn a) = a"
  by (simp add: quarter_turn_def hd_append hd_map upt_conv_Cons)

lemma last_quarter_turn: "last (quarter_turn a) = a + pi / 2"
  by (simp add: quarter_turn_def)

lemma trig_shift:
  "cos (a + pi / 2) = - sin a" "sin (a + pi / 2) = cos a"
  "cos (a - pi / 2) = sin a" "sin (a - pi / 2) = - cos a"
  for a :: real
  by (simp_all add: cos_add sin_add cos_diff sin_diff)

lemma arcs_pixel_fin:
  assumes "pt1 f = (Fin X1, Fin Y1)" "pt2 f = (Fin X2, Fin Y2)"
  shows "arcs_pixel f (Fin th) (Fin r) =
    \<lparr> arc1 = (map (\<lambda>a. Fin (r * cos (a + pi / 2) + (X1 + r * cos th))) (rev (quarter_turn th)),
               map (\<lambda>a. Fin (r * sin (a + pi / 2) + (Y1 + r * sin th))) (rev (quarter_turn th))),
      arc2 = (map (\<lambda>a. Fin (r * cos (a - pi / 2) + ((X2 + X1) / 2 - 2 * r * sin th - r * cos th))) (quarter_turn th),
               map (\<lambda>a. Fin (r * sin (a - pi / 2) + ((Y2 + Y1) / 2 + 2 * r * cos th - r * sin th))) (quarter_turn th)),
      arc3 = (map (\<lambda>a. Fin (r * cos (a + pi) + ((X2 + X1) / 2 - 2 * r * sin th + r * cos th))) (quarter_turn th),
               map (\<lambda>a. Fin (r * sin (a + pi) + ((Y2 + Y1) / 2 + 2 * r * cos th + r * sin th))) (quarter_turn th)),
      arc4 = (map (\<lambda>a. Fin (r * cos a + (X2 - r * cos th))) (rev (quarter_turn th)),
               map (\<lambda>a. Fin (r * sin a + (Y2 - r * sin th))) (rev (quarter_turn th))) \<rparr>"
  using assms
  by (simp add: arcs_pixel_def Let_def linspace_quarter minus_npfloat_def comp_def rev_map [symmetric])

lemma arcs_pixel_length:
  "length (fst (arc1 (arcs_pixel f th r))) = 50" "length (snd (arc1 (arcs_pixel f th r))) = 50"
  "length (fst (arc2 (arcs_pixel f th r))) = 50" "length (snd (arc2 (arcs_pixel f th r))) = 50"
  "length (fst (arc3 (arcs_pixel f th r))) = 50" "length (snd (arc3 (arcs_pixel f th r))) = 50"
  "length (fst (arc4 (arcs_pixel f th r))) = 50" "length (snd (arc4 (arcs_pixel f th r))) = 50"
  by (simp_all add: arcs_pixel_def Let_def np_linspace_def)

lemma pixel_ends:
  fixes th r :: real
  assumes "pt1 f = (Fin X1, Fin Y1)" "pt2 f = (Fin X2, Fin Y2)"
  defines "A \<equiv> arcs_pixel f (Fin th) (Fin r)"
  shows "hd (fst (arc1 A)) = Fin X1" "hd (snd (arc1 A)) = Fin Y1"
    and "last (fst (arc1 A)) = Fin (X1 + r * cos th - r * sin th)"
    and "last (snd (arc1 A)) = Fin (Y1 + r * sin th + r * cos th)"
    and "hd (fst (arc2 A)) = Fin ((X2 + X1) / 2 - r * sin th - r * cos th)"
    and "hd (snd (arc2 A)) = Fin ((Y2 + Y1) / 2 + r * cos th - r * sin th)"
    and "last (fst (arc2 A)) = Fin ((X2 + X1) / 2 - 2 * r * sin th)"
    and "last (snd (arc2 A)) = Fin ((Y2 + Y1) / 2 + 2 * r * cos th)"
    and "hd (fst (arc3 A)) = Fin ((X2 + X1) / 2 - 2 * r * sin th)"
    and "hd (snd (arc3 A)) = Fin ((Y2 + Y1) / 2 + 2 * r * cos th)"
    and "last (fst (arc3 A)) = Fin ((X2 + X1) / 2 - r * sin th + r * cos th)"
    and "last (snd (arc3 A)) = Fin ((Y2 + Y1) / 2 + r * cos th + r * sin th)"
    and "hd (fst (arc4 A)) = Fin (X2 - r * cos th - r * sin th)"
    and "hd (snd (arc4 A)) = Fin (Y2 - r * sin th + r * cos th)"
    and "last (fst (arc4 A)) = Fin X2" "last (snd (arc4 A)) = Fin Y2"
  unfolding A_def arcs_pixel_fin [OF assms(1,2)]
  by (simp_all add: hd_map last_map hd_rev last_rev quarter_turn_nonempty
      hd_quarter_turn last_quarter_turn trig_shift)

section \<open>The label\<close>

lemma remainder_range:
  fixes a :: real
  shows "0 \<le> a - of_int \<lfloor>a / 360\<rfloor> * 360" "a - of_int \<lfloor>a / 360\<rfloor> * 360 < 360"
proof -
  have "of_int \<lfloor>a / 360\<rfloor> \<le> a / 360" by (rule of_int_floor_le)
  then show "0 \<le> a - of_int \<lfloor>a / 360\<rfloor> * 360" by simp
  have "a / 360 < of_int \<lfloor>a / 360\<rfloor> + 1" by linarith
  then show "a - of_int \<lfloor>a / 360\<rfloor> * 360 < 360" by linarith
qed

lemma remainder_fin:
  assumes "np_remainder (np_degrees th) (Fin 360) = Fin ang"
  shows "\<exists>t. th = Fin t \<and> ang = t * (180 / pi) - of_int \<lfloor>t * (180 / pi) / 360\<rfloor> * 360"
  using assms by (cases th) (simp_all add: np_degrees_def)

lemma remainder_fin_range:
  assumes "np_remainder (np_degrees th) (Fin 360) = Fin ang"
  shows "0 \<le> ang \<and> ang < 360"
proof -
  from remainder_fin [OF assms] obtain t where
    "ang = t * (180 / pi) - of_int \<lfloor>t * (180 / pi) / 360\<rfloor> * 360" by blast
  then show ?thesis using remainder_range [of "t * (180 / pi)"] by simp
qed

lemma label_call_ang:
  assumes "np_remainder (np_degrees th) (Fin 360) = Fin ang"
  shows "label_call th anchor str_text n =
           Inr (Text (fst anchor) (snd anchor)
                  (if 90 < ang \<and> ang < 270
                   then replicate (nat n) (CHR 0x0A) @ str_text
                   else str_text @ replicate (nat n) (CHR 0x0A))
                  (Fin (if 90 < ang \<and> ang < 270 then ang + 180 else ang)))"
  using remainder_fin_range [OF assms]
  by (auto simp add: label_call_def assms Let_def)

section \<open>The returned geometry\<close>

lemma is_log_linear: "\<not> is_log ''linear''"
  by (simp add: is_log_def sublist_code)

lemma is_log_log: "is_log ''log''"
  by (simp add: is_log_def sublist_code)

lemma theta_geometry: "theta (brace_geometry h p1 p2 k_r bool_auto) = brace_theta (to_frame h p1 p2 bool_auto)"
  by (simp add: brace_geometry_def Let_def)

lemma summit_geometry:
  "summit (brace_geometry h p1 p2 k_r bool_auto) =
     (last (fst (arc2 (result_arcs (brace_geometry h p1 p2 k_r bool_auto)))),
      last (snd (arc2 (result_arcs (brace_geometry h p1 p2 k_r bool_auto)))))"
  by (simp add: brace_geometry_def Let_def)

lemma arcs_geometry:
  "result_arcs (brace_geometry h p1 p2 k_r bool_auto) =
     arcs_data h (to_frame h p1 p2 bool_auto)
       (arcs_pixel (to_frame h p1 p2 bool_auto) (brace_theta (to_frame h p1 p2 bool_auto))
          (brace_r (to_frame h p1 p2 bool_auto) k_r))"
  by (simp add: brace_geometry_def Let_def)

lemma theta_valid:
  assumes "valid_call h p1 p2 k_r"
  shows "is_fin (brace_theta (to_frame h p1 p2 bool_auto))"
proof -
  from assms obtain X1 Y1 X2 Y2 xl xh yl yh sx sy where
    "to_frame h p1 p2 bool_auto =
       \<lparr> pt1 = (Fin X1, Fin Y1), pt2 = (Fin X2, Fin Y2),
         ax_xlim = (Fin xl, Fin xh), ax_ylim = (Fin yl, Fin yh),
         xscale = Fin sx, yscale = Fin sy \<rparr>"
    by (rule frame_fin)
  then show ?thesis by (simp add: brace_theta_def minus_npfloat_def)
qed

lemma remainder_of_fin:
  "np_remainder (np_degrees (Fin t)) (Fin 360) =
     Fin (t * (180 / pi) - of_int \<lfloor>t * (180 / pi) / 360\<rfloor> * 360)"
  by (simp add: np_degrees_def)

lemma curlyBrace_returns:
  assumes "is_fin (brace_theta (to_frame h p1 p2 bool_auto))"
  shows "\<exists>calls. curlyBrace h p1 p2 k_r bool_auto str_text n =
           (calls, Inr (brace_geometry h p1 p2 k_r bool_auto))"
proof -
  from is_finD [OF assms] obtain t where t: "brace_theta (to_frame h p1 p2 bool_auto) = Fin t"
    by blast
  have "\<exists>c. label_call (Fin t) anchor str_text n = Inr c" for anchor
    using label_call_ang [OF remainder_of_fin] by blast
  then obtain c where
    "label_call (Fin t) (last (fst (arc2 (result_arcs (brace_geometry h p1 p2 k_r bool_auto)))),
        last (snd (arc2 (result_arcs (brace_geometry h p1 p2 k_r bool_auto))))) str_text n = Inr c"
    by blast
  then show ?thesis
    by (simp add: curlyBrace_def Let_def theta_geometry t)
qed

lemma scenario_valid: "valid_call scenario_host (Fin 0, Fin 0) (Fin 1, Fin 1) (Fin (1 / 10))"
  by (simp add: valid_call_def scenario_host_def getAxSize_def is_log_linear)

subsection \<open>The scenario, computed\<close>

lemma scenario_frame:
  "to_frame scenario_host (Fin 0, Fin 0) (Fin 1, Fin 1) False =
     \<lparr> pt1 = (Fin 0, Fin 0), pt2 = (Fin 1, Fin 1),
       ax_xlim = (Fin 0, Fin 2), ax_ylim = (Fin 0, Fin 2),
       xscale = Fin 1, yscale = Fin 1 \<rparr>"
  by (simp add: to_frame_def scenario_host_def getAxSize_def is_log_linear Let_def
      minus_npfloat_def)

lemma scenario_theta:
  "brace_theta (to_frame scenario_host (Fin 0, Fin 0) (Fin 1, Fin 1) False) = Fin (pi / 4)"
  by (simp add: scenario_frame brace_theta_def minus_npfloat_def arctan2_def arctan_one)

lemma scenario_r:
  "brace_r (to_frame scenario_host (Fin 0, Fin 0) (Fin 1, Fin 1) False) (Fin (1 / 10)) =
     Fin (sqrt 2 / 10)"
  by (simp add: scenario_frame brace_r_def minus_npfloat_def)

lemma scenario_summit:
  "summit (brace_geometry scenario_host (Fin 0, Fin 0) (Fin 1, Fin 1) (Fin (1 / 10)) False) =
     (Fin (3 / 10), Fin (7 / 10))"
proof -
  let ?f = "to_frame scenario_host (Fin 0, Fin 0) (Fin 1, Fin 1) False"
  have p: "pt1 ?f = (Fin 0, Fin 0)" "pt2 ?f = (Fin 1, Fin 1)"
    by (simp_all add: scenario_frame)
  have ne: "fst (arc2 (arcs_pixel ?f (Fin (pi / 4)) (Fin (sqrt 2 / 10)))) \<noteq> []"
    "snd (arc2 (arcs_pixel ?f (Fin (pi / 4)) (Fin (sqrt 2 / 10)))) \<noteq> []"
    using arcs_pixel_length(3,4) [of ?f "Fin (pi / 4)" "Fin (sqrt 2 / 10)"] by auto
  have b: "back_x scenario_host ?f (Fin v) = Fin v" "back_y scenario_host ?f (Fin v) = Fin v" for v
    by (simp_all add: back_x_def back_y_def scenario_frame Let_def)
      (simp_all add: scenario_host_def is_log_linear)
  show ?thesis
    using ne
    by (simp add: summit_geometry arcs_geometry arcs_data_def back_arc_def last_map
        scenario_theta scenario_r pixel_ends(7,8) [OF p] b sin_45 cos_45)
qed



section \<open>Valid calls: everything stays finite\<close>

lemma geometry_fin:
  assumes "valid_call h p1 p2 k_r"
  obtains X1 Y1 X2 Y2 xl xh yl yh sx sy k where
    "to_frame h p1 p2 bool_auto =
       \<lparr> pt1 = (Fin X1, Fin Y1), pt2 = (Fin X2, Fin Y2),
         ax_xlim = (Fin xl, Fin xh), ax_ylim = (Fin yl, Fin yh),
         xscale = Fin sx, yscale = Fin sy \<rparr>"
    "k_r = Fin k"
    "brace_theta (to_frame h p1 p2 bool_auto) = Fin (arctan2 (Y2 - Y1) (X2 - X1))"
    "brace_r (to_frame h p1 p2 bool_auto) k_r = Fin (sqrt ((X2 - X1)\<^sup>2 + (Y2 - Y1)\<^sup>2) * k)"
    "back_x h (to_frame h p1 p2 bool_auto) (Fin X1) = fst p1"
    "back_x h (to_frame h p1 p2 bool_auto) (Fin X2) = fst p2"
    "back_y h (to_frame h p1 p2 bool_auto) (Fin Y1) = snd p1"
    "back_y h (to_frame h p1 p2 bool_auto) (Fin Y2) = snd p2"
    "\<And>v. is_fin (back_x h (to_frame h p1 p2 bool_auto) (Fin v))"
    "\<And>v. is_fin (back_y h (to_frame h p1 p2 bool_auto) (Fin v))"
proof -
  from assms obtain X1 Y1 X2 Y2 xl xh yl yh sx sy where f:
    "to_frame h p1 p2 bool_auto =
       \<lparr> pt1 = (Fin X1, Fin Y1), pt2 = (Fin X2, Fin Y2),
         ax_xlim = (Fin xl, Fin xh), ax_ylim = (Fin yl, Fin yh),
         xscale = Fin sx, yscale = Fin sy \<rparr>"
    "sx \<noteq> 0" "sy \<noteq> 0"
    "fst p1 = (if is_log (get_xscale h) then Fin (exp (X1 / sx + xl)) else Fin (X1 / sx + xl))"
    "fst p2 = (if is_log (get_xscale h) then Fin (exp (X2 / sx + xl)) else Fin (X2 / sx + xl))"
    "snd p1 = (if is_log (get_yscale h) then Fin (exp (Y1 / sy + yl)) else Fin (Y1 / sy + yl))"
    "snd p2 = (if is_log (get_yscale h) then Fin (exp (Y2 / sy + yl)) else Fin (Y2 / sy + yl))"
    by (rule frame_fin)
  from assms have "is_fin k_r" by (simp add: valid_call_def)
  from is_finD [OF this] obtain k where k: "k_r = Fin k" by blast
  have bx: "back_x h (to_frame h p1 p2 bool_auto) (Fin v) =
      (if is_log (get_xscale h) then Fin (exp (v / sx + xl)) else Fin (v / sx + xl))" for v
    using f(2) by (simp add: back_x_def f(1) Let_def)
  have by': "back_y h (to_frame h p1 p2 bool_auto) (Fin v) =
      (if is_log (get_yscale h) then Fin (exp (v / sy + yl)) else Fin (v / sy + yl))" for v
    using f(3) by (simp add: back_y_def f(1) Let_def)
  show ?thesis
  proof (rule that [OF f(1) k])
    show "brace_theta (to_frame h p1 p2 bool_auto) = Fin (arctan2 (Y2 - Y1) (X2 - X1))"
      by (simp add: brace_theta_def f(1) minus_npfloat_def)
    show "brace_r (to_frame h p1 p2 bool_auto) k_r = Fin (sqrt ((X2 - X1)\<^sup>2 + (Y2 - Y1)\<^sup>2) * k)"
      by (simp add: brace_r_def f(1) k minus_npfloat_def)
    show "back_x h (to_frame h p1 p2 bool_auto) (Fin X1) = fst p1" by (simp add: bx f(4))
    show "back_x h (to_frame h p1 p2 bool_auto) (Fin X2) = fst p2" by (simp add: bx f(5))
    show "back_y h (to_frame h p1 p2 bool_auto) (Fin Y1) = snd p1" by (simp add: by' f(6))
    show "back_y h (to_frame h p1 p2 bool_auto) (Fin Y2) = snd p2" by (simp add: by' f(7))
    show "is_fin (back_x h (to_frame h p1 p2 bool_auto) (Fin v))" for v by (simp add: bx)
    show "is_fin (back_y h (to_frame h p1 p2 bool_auto) (Fin v))" for v by (simp add: by')
  qed
qed

lemma arcs_data_ends:
  assumes "fst a \<noteq> []" "snd a \<noteq> []"
  shows "hd (fst (back_arc h f a)) = back_x h f (hd (fst a))"
    and "hd (snd (back_arc h f a)) = back_y h f (hd (snd a))"
    and "last (fst (back_arc h f a)) = back_x h f (last (fst a))"
    and "last (snd (back_arc h f a)) = back_y h f (last (snd a))"
  using assms by (simp_all add: back_arc_def hd_map last_map)

lemma arcs_pixel_nonempty:
  "fst (arc1 (arcs_pixel f th r)) \<noteq> []" "snd (arc1 (arcs_pixel f th r)) \<noteq> []"
  "fst (arc2 (arcs_pixel f th r)) \<noteq> []" "snd (arc2 (arcs_pixel f th r)) \<noteq> []"
  "fst (arc3 (arcs_pixel f th r)) \<noteq> []" "snd (arc3 (arcs_pixel f th r)) \<noteq> []"
  "fst (arc4 (arcs_pixel f th r)) \<noteq> []" "snd (arc4 (arcs_pixel f th r)) \<noteq> []"
  by (simp_all add: arcs_pixel_def Let_def np_linspace_def)

lemma data_arcs:
  "arc1 (arcs_data h f a) = back_arc h f (arc1 a)"
  "arc2 (arcs_data h f a) = back_arc h f (arc2 a)"
  "arc3 (arcs_data h f a) = back_arc h f (arc3 a)"
  "arc4 (arcs_data h f a) = back_arc h f (arc4 a)"
  by (simp_all add: arcs_data_def)

lemma log_host_valid: "valid_call log_host (Fin 2, Fin 0) (Fin 50, Fin 1) (Fin (1 / 10))"
  by (simp add: valid_call_def log_host_def getAxSize_def is_log_linear is_log_log)

lemma curlyBrace_calls:
  assumes "brace_theta (to_frame h p1 p2 bool_auto) = Fin t"
  shows "\<exists>label.
     fst (curlyBrace h p1 p2 k_r bool_auto str_text n) =
       (let a = result_arcs (brace_geometry h p1 p2 k_r bool_auto) in
        [Plot (fst (arc1 a)) (snd (arc1 a)), Plot (fst (arc2 a)) (snd (arc2 a)),
         Plot (fst (arc3 a)) (snd (arc3 a)), Plot (fst (arc4 a)) (snd (arc4 a)),
         Plot [last (fst (arc1 a)), fst (arc2 a) ! 1] [last (snd (arc1 a)), snd (arc2 a) ! 1],
         Plot [last (fst (arc3 a)), fst (arc4 a) ! 1] [last (snd (arc3 a)), snd (arc4 a) ! 1]]) @ label \<and>
     (if str_text = [] then label = []
      else \<exists>s rot. label =
             [Text (fst (summit (brace_geometry h p1 p2 k_r bool_auto)))
                   (snd (summit (brace_geometry h p1 p2 k_r bool_auto))) s rot])"
proof (cases "str_text = []")
  case True
  then show ?thesis
    by (simp add: curlyBrace_def Let_def)
next
  case False
  have "np_remainder (np_degrees (brace_theta (to_frame h p1 p2 bool_auto))) (Fin 360) =
      Fin (t * (180 / pi) - of_int \<lfloor>t * (180 / pi) / 360\<rfloor> * 360)"
    by (simp add: assms remainder_of_fin)
  from label_call_ang [OF this] False show ?thesis
    by (simp add: curlyBrace_def Let_def theta_geometry summit_geometry [symmetric])
qed

section \<open>Radius zero\<close>

lemma arcs_pixel_r0:
  assumes "pt1 f = (Fin X1, Fin Y1)" "pt2 f = (Fin X2, Fin Y2)"
  shows "arcs_pixel f (Fin th) (Fin 0) =
    \<lparr> arc1 = (replicate 50 (Fin X1), replicate 50 (Fin Y1)),
      arc2 = (replicate 50 (Fin ((X2 + X1) / 2)), replicate 50 (Fin ((Y2 + Y1) / 2))),
      arc3 = (replicate 50 (Fin ((X2 + X1) / 2)), replicate 50 (Fin ((Y2 + Y1) / 2))),
      arc4 = (replicate 50 (Fin X2), replicate 50 (Fin Y2)) \<rparr>"
  by (simp add: arcs_pixel_fin [OF assms] map_replicate_const length_quarter_turn)

lemma back_arc_replicate:
  "back_arc h f (replicate m x, replicate m y) = (replicate m (back_x h f x), replicate m (back_y h f y))"
  by (simp add: back_arc_def)

lemma scenario_valid0: "valid_call scenario_host (Fin 0, Fin 0) (Fin 1, Fin 1) (Fin 0)"
  by (simp add: valid_call_def scenario_host_def getAxSize_def is_log_linear)

lemma scenario_frame_auto:
  "to_frame scenario_host (Fin 0, Fin 0) (Fin 1, Fin 1) True =
     \<lparr> pt1 = (Fin 0, Fin 0), pt2 = (Fin 200, Fin 150),
       ax_xlim = (Fin 0, Fin 2), ax_ylim = (Fin 0, Fin 2),
       xscale = Fin 200, yscale = Fin 150 \<rparr>"
  by (simp add: to_frame_def scenario_host_def getAxSize_def is_log_linear Let_def
      minus_npfloat_def)

lemma to_frame_same: "pt2 (to_frame h p p bool_auto) = pt1 (to_frame h p p bool_auto)"
  by (simp add: to_frame_def Let_def split_beta)

section \<open>The angle with the scale factors forced to 1\<close>

lemma theta_no_auto:
  assumes "fst (get_xlim h) = Fin xlo" "fst (get_ylim h) = Fin ylo"
    and "is_log (get_xscale h) \<longrightarrow> 0 < a1 \<and> 0 < a2 \<and> 0 < xlo"
    and "is_log (get_yscale h) \<longrightarrow> 0 < b1 \<and> 0 < b2 \<and> 0 < ylo"
  shows "brace_theta (to_frame h (Fin a1, Fin b1) (Fin a2, Fin b2) False) =
           Fin (arctan2 (if is_log (get_yscale h) then ln b2 - ln b1 else b2 - b1)
                        (if is_log (get_xscale h) then ln a2 - ln a1 else a2 - a1))"
  using assms
  by (simp add: brace_theta_def to_frame_def Let_def split_beta minus_npfloat_def)

lemma ln2_angle: "arctan2 1 (ln 2) \<noteq> arctan2 1 1"
proof -
  have "(0::real) < ln 2" by simp
  moreover have "1 / ln 2 \<noteq> (1::real)" using ln_2_less_1 by simp
  ultimately show ?thesis
    by (simp add: arctan2_def arctan_eq_iff)
qed

section \<open>The gap between an outer and an inner arc\<close>





lemma gap_frame:
  "to_frame scenario_host (Fin 0, Fin 0) (Fin 1, Fin 0) False =
     \<lparr> pt1 = (Fin 0, Fin 0), pt2 = (Fin 1, Fin 0),
       ax_xlim = (Fin 0, Fin 2), ax_ylim = (Fin 0, Fin 2),
       xscale = Fin 1, yscale = Fin 1 \<rparr>"
  by (simp add: to_frame_def scenario_host_def getAxSize_def is_log_linear Let_def
      minus_npfloat_def)


section \<open>Swapping the endpoints\<close>

lemma norm360:
  fixes a :: real
  assumes "- 360 \<le> a" "a < 360"
  shows "a - of_int \<lfloor>a / 360\<rfloor> * 360 = (if 0 \<le> a then a else a + 360)"
proof (cases "0 \<le> a")
  case True
  then have "\<lfloor>a / 360\<rfloor> = 0" using assms by (intro floor_unique) simp_all
  then show ?thesis using True by simp
next
  case False
  then have "\<lfloor>a / 360\<rfloor> = - 1" using assms by (intro floor_unique) simp_all
  then show ?thesis using False by simp
qed

lemma arctan2_not_vertical:
  assumes "x \<noteq> 0"
  shows "arctan2 y x \<noteq> pi / 2" "arctan2 y x \<noteq> - (pi / 2)"
proof -
  have a: "- (pi / 2) < arctan (y / x)" "arctan (y / x) < pi / 2"
    by (rule arctan_lbound, rule arctan_ubound)
  have neg: "x < 0 \<Longrightarrow> 0 \<le> y \<Longrightarrow> arctan (y / x) \<le> 0"
    by (simp add: divide_nonneg_neg arctan_le_zero_iff)
  have pos: "x < 0 \<Longrightarrow> y < 0 \<Longrightarrow> 0 < arctan (y / x)"
    by (simp add: divide_neg_neg zero_less_arctan_iff)
  show "arctan2 y x \<noteq> pi / 2" "arctan2 y x \<noteq> - (pi / 2)"
    using assms a neg pos pi_gt_zero unfolding arctan2_def by (auto; linarith)+
qed

lemma degrees_facts:
  fixes t :: real
  shows "(t * (180 / pi) = 90) = (t = pi / 2)"
    and "(t * (180 / pi) = - 90) = (t = - (pi / 2))"
    and "(- 180 < t * (180 / pi)) = (- pi < t)"
    and "(t * (180 / pi) \<le> 180) = (t \<le> pi)"
    and "(0 < t * (180 / pi)) = (0 < t)"
    and "(t - pi) * (180 / pi) = t * (180 / pi) - 180"
    and "(t + pi) * (180 / pi) = t * (180 / pi) + 180"
  using pi_gt_zero by (auto simp: field_simps)

lemma swap_label_real:
  fixes a :: real
  assumes "- 180 < a" "a \<le> 180" "a \<noteq> 90" "a \<noteq> - 90"
  defines "b \<equiv> (if 0 < a then a - 180 else a + 180)"
  defines "ang \<equiv> a - of_int \<lfloor>a / 360\<rfloor> * 360"
    and "ang' \<equiv> b - of_int \<lfloor>b / 360\<rfloor> * 360"
  shows "(90 < ang' \<and> ang' < 270) = (\<not> (90 < ang \<and> ang < 270))"
    and "(if 90 < ang' \<and> ang' < 270 then ang' + 180 else ang') -
         (if 90 < ang \<and> ang < 270 then ang + 180 else ang) \<in> {0, 360, - 360}"
proof -
  have 1: "ang = (if 0 \<le> a then a else a + 360)"
    unfolding ang_def using assms(1,2) by (intro norm360) simp_all
  have 2: "ang' = (if 0 \<le> b then b else b + 360)"
    unfolding ang'_def using assms(1,2) by (intro norm360) (simp_all add: b_def)
  show "(90 < ang' \<and> ang' < 270) = (\<not> (90 < ang \<and> ang < 270))"
    using assms(1-4) unfolding 1 2 b_def by (auto split: if_splits)
  show "(if 90 < ang' \<and> ang' < 270 then ang' + 180 else ang') -
         (if 90 < ang \<and> ang < 270 then ang + 180 else ang) \<in> {0, 360, - 360}"
    using assms(1-4) unfolding 1 2 b_def by (auto split: if_splits)
qed

lemma to_frame_swap:
  "pt1 (to_frame h p2 p1 bool_auto) = pt2 (to_frame h p1 p2 bool_auto)"
  "pt2 (to_frame h p2 p1 bool_auto) = pt1 (to_frame h p1 p2 bool_auto)"
  by (simp_all add: to_frame_def Let_def split_beta)



lemma remainder_multiple:
  fixes d :: real
  assumes "d \<in> {0, 360, - 360}"
  shows "np_remainder (Fin d) (Fin 360) = Fin 0"
  using assms by auto




lemma gap_theta:
  "brace_theta (to_frame scenario_host (Fin 0, Fin 0) (Fin 1, Fin 0) False) = Fin 0"
  by (simp add: brace_theta_def gap_frame minus_npfloat_def arctan2_def)

lemma gap_theta_swapped:
  "brace_theta (to_frame scenario_host (Fin 1, Fin 0) (Fin 0, Fin 0) False) = Fin pi"
  by (simp add: brace_theta_def to_frame_swap gap_frame minus_npfloat_def arctan2_def)

section \<open>NaN and infinities through the computation\<close>

lemma nan_absorbs:
  "x + NaN = NaN" "NaN + x = NaN" "x - NaN = NaN" "NaN - x = NaN"
  "x * NaN = NaN" "NaN * x = NaN" "x / NaN = NaN" "NaN / x = NaN"
  by (cases x; simp add: minus_npfloat_def)+

lemma log_negative: "is_negative v \<Longrightarrow> np_log v = NaN"
  by (cases v) simp_all

lemma arctan2_nan: "np_arctan2 y NaN = NaN" "np_arctan2 NaN x = NaN"
  by (cases y; simp)+

lemma linspace_nan: "np_linspace NaN stop 50 = replicate 49 NaN @ [stop]"
  by (simp add: np_linspace_def Let_def nan_absorbs map_replicate_const)

lemma arcs_pixel_nan: "arcs_pixel f NaN r = nan_arcs"
proof -
  have "replicate 49 NaN @ [NaN] = replicate 50 NaN"
    using replicate_Suc [of 49 NaN] by (simp add: replicate_append_same)
  then have q: "np_linspace NaN NaN 50 = replicate 50 NaN"
    by (simp add: linspace_nan)
  show ?thesis
    by (simp add: arcs_pixel_def Let_def q nan_absorbs nan_arcs_def)
qed

lemma back_nan: "back_x h f NaN = NaN" "back_y h f NaN = NaN"
  by (simp_all add: back_x_def back_y_def Let_def nan_absorbs)

lemma arcs_data_nan: "arcs_data h f nan_arcs = nan_arcs"
  by (simp add: arcs_data_def nan_arcs_def back_arc_def back_nan)

lemma geometry_nan:
  assumes "brace_theta (to_frame h p1 p2 bool_auto) = NaN"
  shows "brace_geometry h p1 p2 k_r bool_auto =
           \<lparr> theta = NaN, summit = (NaN, NaN), result_arcs = nan_arcs \<rparr>"
proof -
  have "last (replicate 50 NaN) = NaN" by simp
  then show ?thesis
    by (simp add: brace_geometry_def Let_def assms arcs_pixel_nan arcs_data_nan)
      (simp add: nan_arcs_def)
qed

lemma theta_nan_on_log_axis:
  assumes "is_log (get_xscale h) \<and> (is_negative (fst p1) \<or> is_negative (fst p2)) \<or>
           is_log (get_yscale h) \<and> (is_negative (snd p1) \<or> is_negative (snd p2))"
  shows "brace_theta (to_frame h p1 p2 bool_auto) = NaN"
  using assms
  by (auto simp: brace_theta_def to_frame_def Let_def split_beta log_negative nan_absorbs arctan2_nan)

lemma nan_on_negative_log_coordinate:
  assumes "is_log (get_xscale h) \<and> (is_negative (fst p1) \<or> is_negative (fst p2)) \<or>
           is_log (get_yscale h) \<and> (is_negative (snd p1) \<or> is_negative (snd p2))"
  shows "\<exists>plots.
           curlyBrace h p1 p2 k_r bool_auto [] n =
             (plots, Inr \<lparr> theta = NaN, summit = (NaN, NaN), result_arcs = nan_arcs \<rparr>) \<and>
           length plots = 6"
proof -
  note g = geometry_nan [OF theta_nan_on_log_axis [OF assms], of k_r bool_auto]
  show ?thesis
    by (simp add: curlyBrace_def Let_def g)
qed

lemma log_host_negative:
  "is_log (get_xscale log_host) \<and>
     (is_negative (fst (Fin (- 1), Fin 0)) \<or> is_negative (fst (Fin 50, Fin 1))) \<or>
   is_log (get_yscale log_host) \<and>
     (is_negative (snd (Fin (- 1), Fin 0)) \<or> is_negative (snd (Fin 50, Fin 1)))"
  by (simp add: log_host_def is_log_log)

lemma curlyBrace_without_label:
  "\<exists>plots. curlyBrace h p1 p2 k_r bool_auto [] n =
             (plots, Inr (brace_geometry h p1 p2 k_r bool_auto)) \<and> length plots = 6"
  by (simp add: curlyBrace_def Let_def)

lemma not_fin_arith:
  "\<not> is_fin x \<Longrightarrow> \<not> is_fin (x - y)"
  "\<not> is_fin x \<Longrightarrow> \<not> is_fin (x * y)"
  by (cases x; cases y; simp add: minus_npfloat_def)+

lemma log_nonpositive: "is_nonpositive v \<Longrightarrow> \<not> is_fin (np_log v)"
  by (cases v) simp_all

lemma pixels_not_finite:
  assumes "is_log (get_xscale h) \<and> (is_nonpositive (fst p1) \<or> is_nonpositive (fst p2)) \<or>
           is_log (get_yscale h) \<and> (is_nonpositive (snd p1) \<or> is_nonpositive (snd p2))"
  shows "\<not> (is_fin (fst (pt1 (to_frame h p1 p2 bool_auto))) \<and>
            is_fin (snd (pt1 (to_frame h p1 p2 bool_auto))) \<and>
            is_fin (fst (pt2 (to_frame h p1 p2 bool_auto))) \<and>
            is_fin (snd (pt2 (to_frame h p1 p2 bool_auto))))"
  using assms
  by (auto simp: to_frame_def Let_def split_beta not_fin_arith log_nonpositive)

lemma log_host_nonpositive:
  "is_log (get_xscale log_host) \<and>
     (is_nonpositive (fst (Fin (- 1), Fin 0)) \<or> is_nonpositive (fst (Fin 50, Fin 1))) \<or>
   is_log (get_yscale log_host) \<and>
     (is_nonpositive (snd (Fin (- 1), Fin 0)) \<or> is_nonpositive (snd (Fin 50, Fin 1)))"
  by (simp add: log_host_def is_log_log)

section \<open>Machine arithmetic: the exact instance and the structure of the result\<close>
lemma getAxSize_fp_exact: "getAxSize_fp (\<lambda>x. x) h = getAxSize h"
  by (simp add: getAxSize_fp_def getAxSize_def)

lemma to_frame_fp_exact: "to_frame_fp (\<lambda>x. x) h p1 p2 b = to_frame h p1 p2 b"
  by (simp add: to_frame_fp_def to_frame_def getAxSize_fp_exact)

lemma brace_theta_fp_exact: "brace_theta_fp (\<lambda>x. x) f = brace_theta f"
  by (simp add: brace_theta_fp_def brace_theta_def)

lemma brace_r_fp_exact: "brace_r_fp (\<lambda>x. x) f k = brace_r f k"
  by (simp add: brace_r_fp_def brace_chord_fp_def brace_r_def)

lemma np_linspace_fp_exact: "np_linspace_fp (\<lambda>x. x) a b n = np_linspace a b n"
  by (simp add: np_linspace_fp_def np_linspace_def)

lemma arcs_pixel_fp_exact: "arcs_pixel_fp (\<lambda>x. x) f th r = arcs_pixel f th r"
  by (simp add: arcs_pixel_fp_def arcs_pixel_def np_linspace_fp_exact Let_def)

lemma back_fp_exact:
  "back_x_fp (\<lambda>x. x) h f = back_x h f" "back_y_fp (\<lambda>x. x) h f = back_y h f"
  by (simp_all add: back_x_fp_def back_x_def back_y_fp_def back_y_def fun_eq_iff)

lemma arcs_data_fp_exact: "arcs_data_fp (\<lambda>x. x) h f a = arcs_data h f a"
  by (simp add: arcs_data_fp_def arcs_data_def back_arc_fp_def back_arc_def back_fp_exact)

lemma label_call_fp_exact: "label_call_fp (\<lambda>x. x) th anchor s n = label_call th anchor s n"
  by (simp add: label_call_fp_def label_call_def label_angle_fp_def np_degrees_def)

lemma brace_geometry_fp_exact:
  "brace_geometry_fp (\<lambda>x. x) h p1 p2 k b = brace_geometry h p1 p2 k b"
  by (simp add: brace_geometry_fp_def brace_geometry_def to_frame_fp_exact brace_theta_fp_exact
      brace_r_fp_exact arcs_pixel_fp_exact arcs_data_fp_exact)

lemma curlyBrace_fp_exact:
  "curlyBrace_fp (\<lambda>x. x) h p1 p2 k b s n = curlyBrace h p1 p2 k b s n"
  by (simp add: curlyBrace_fp_def curlyBrace_def brace_geometry_fp_exact label_call_fp_exact Let_def)



lemma theta_geometry_fp:
  "theta (brace_geometry_fp rnd h p1 p2 k_r bool_auto) =
     brace_theta_fp rnd (to_frame_fp rnd h p1 p2 bool_auto)"
  by (simp add: brace_geometry_fp_def Let_def)

lemma summit_geometry_fp:
  "summit (brace_geometry_fp rnd h p1 p2 k_r bool_auto) =
     (last (fst (arc2 (result_arcs (brace_geometry_fp rnd h p1 p2 k_r bool_auto)))),
      last (snd (arc2 (result_arcs (brace_geometry_fp rnd h p1 p2 k_r bool_auto)))))"
  by (simp add: brace_geometry_fp_def Let_def)

lemma arcs_geometry_fp:
  "result_arcs (brace_geometry_fp rnd h p1 p2 k_r bool_auto) =
     arcs_data_fp rnd h (to_frame_fp rnd h p1 p2 bool_auto)
       (arcs_pixel_fp rnd (to_frame_fp rnd h p1 p2 bool_auto)
          (brace_theta_fp rnd (to_frame_fp rnd h p1 p2 bool_auto))
          (brace_r_fp rnd (to_frame_fp rnd h p1 p2 bool_auto) k_r))"
  by (simp add: brace_geometry_fp_def Let_def)

lemma curlyBrace_fp_without_label:
  "\<exists>plots. curlyBrace_fp rnd h p1 p2 k_r bool_auto [] n =
             (plots, Inr (brace_geometry_fp rnd h p1 p2 k_r bool_auto)) \<and> length plots = 6"
  by (simp add: curlyBrace_fp_def Let_def)

lemma curlyBrace_fp_outcome:
  "snd (curlyBrace_fp rnd h p1 p2 k_r bool_auto str_text n) =
     Inr (brace_geometry_fp rnd h p1 p2 k_r bool_auto) \<or>
   snd (curlyBrace_fp rnd h p1 p2 k_r bool_auto str_text n) = Inl UnboundLocalError"
  by (cases "label_call_fp rnd (theta (brace_geometry_fp rnd h p1 p2 k_r bool_auto))
        (last (fst (arc2 (result_arcs (brace_geometry_fp rnd h p1 p2 k_r bool_auto)))),
         last (snd (arc2 (result_arcs (brace_geometry_fp rnd h p1 p2 k_r bool_auto)))))
        str_text n")
     (auto simp: curlyBrace_fp_def Let_def label_call_fp_def split: option.splits prod.splits if_splits)

lemma np_linspace_fp_length: "length (np_linspace_fp rnd a b 50) = 50"
  by (simp add: np_linspace_fp_def Let_def)

lemma np_linspace_fp_nonempty: "np_linspace_fp rnd a b 50 \<noteq> []"
  by (simp add: np_linspace_fp_def Let_def)

lemma arcs_pixel_fp_length:
  "length (fst (arc1 (arcs_pixel_fp rnd f th r))) = 50" "length (snd (arc1 (arcs_pixel_fp rnd f th r))) = 50"
  "length (fst (arc2 (arcs_pixel_fp rnd f th r))) = 50" "length (snd (arc2 (arcs_pixel_fp rnd f th r))) = 50"
  "length (fst (arc3 (arcs_pixel_fp rnd f th r))) = 50" "length (snd (arc3 (arcs_pixel_fp rnd f th r))) = 50"
  "length (fst (arc4 (arcs_pixel_fp rnd f th r))) = 50" "length (snd (arc4 (arcs_pixel_fp rnd f th r))) = 50"
  by (simp_all add: arcs_pixel_fp_def Let_def np_linspace_fp_length)

lemma arc2_data_fp:
  "arc2 (arcs_data_fp rnd h f a) = back_arc_fp rnd h f (arc2 a)"
  by (simp add: arcs_data_fp_def)

lemma summit_fp_unfolded:
  "summit (brace_geometry_fp rnd h p1 p2 k_r bool_auto) =
    (let f = to_frame_fp rnd h p1 p2 bool_auto;
         A = arcs_pixel_fp rnd f (brace_theta_fp rnd f) (brace_r_fp rnd f k_r);
         wx = rnd (rnd (last (fst (arc2 A)) / xscale f) + fst (ax_xlim f));
         wy = rnd (rnd (last (snd (arc2 A)) / yscale f) + fst (ax_ylim f))
     in (if is_log (get_xscale h) then rnd (np_exp wx) else wx,
         if is_log (get_yscale h) then rnd (np_exp wy) else wy))"
proof -
  let ?f = "to_frame_fp rnd h p1 p2 bool_auto"
  let ?A = "arcs_pixel_fp rnd ?f (brace_theta_fp rnd ?f) (brace_r_fp rnd ?f k_r)"
  have ne: "fst (arc2 ?A) \<noteq> []" "snd (arc2 ?A) \<noteq> []"
    using arcs_pixel_fp_length(3,4) [of rnd ?f "brace_theta_fp rnd ?f" "brace_r_fp rnd ?f k_r"]
    by auto
  show ?thesis
    by (simp add: summit_geometry_fp arcs_geometry_fp arc2_data_fp back_arc_fp_def last_map ne
        back_x_fp_def back_y_fp_def Let_def)
qed

section \<open>The label and the angle, whatever the rounding\<close>

lemma label_call_fp_ang:
  assumes "label_angle_fp rnd th = Fin a" "0 \<le> a" "a \<le> 360"
  shows "label_call_fp rnd th anchor str_text n =
           Inr (Text (fst anchor) (snd anchor)
                  (if 90 < a \<and> a < 270
                   then replicate (nat n) (CHR 0x0A) @ str_text
                   else str_text @ replicate (nat n) (CHR 0x0A))
                  (if 90 < a \<and> a < 270 then rnd (Fin a + Fin 180) else Fin a))"
  using assms(2,3) by (auto simp add: label_call_fp_def assms(1) Let_def)


lemma times_one [simp]: "x * Fin 1 = x"
  by (cases x) simp_all

lemma label_angle_fp_exact:
  "label_angle_fp (\<lambda>x. x) th = np_remainder (np_degrees th) (Fin 360)"
  by (simp add: label_angle_fp_def np_degrees_def)


lemma curlyBrace_fp_same_result:
  assumes "curlyBrace_fp rnd h p1 p2 k_r bool_auto str_text n = (calls, Inr res)"
  shows "res = brace_geometry_fp rnd h p1 p2 k_r bool_auto"
  using curlyBrace_fp_outcome [of rnd h p1 p2 k_r bool_auto str_text n] assms by auto

lemma theta_fp_no_auto:
  assumes "\<forall>x. rnd (rnd x) = rnd x"
  shows "brace_theta_fp rnd (to_frame_fp rnd h p1 p2 False) =
    (let X1 = (if is_log (get_xscale h) then rnd (np_log (fst p1)) else fst p1);
         X2 = (if is_log (get_xscale h) then rnd (np_log (fst p2)) else fst p2);
         xlo = (if is_log (get_xscale h) then rnd (np_log (fst (get_xlim h))) else fst (get_xlim h));
         Y1 = (if is_log (get_yscale h) then rnd (np_log (snd p1)) else snd p1);
         Y2 = (if is_log (get_yscale h) then rnd (np_log (snd p2)) else snd p2);
         ylo = (if is_log (get_yscale h) then rnd (np_log (fst (get_ylim h))) else fst (get_ylim h))
     in rnd (np_arctan2 (rnd (rnd (Y2 - ylo) - rnd (Y1 - ylo)))
                        (rnd (rnd (X2 - xlo) - rnd (X1 - xlo)))))"
  using assms
  by (simp add: brace_theta_fp_def to_frame_fp_def Let_def split_beta)

subsection \<open>A brace on a logarithmic axis, computed\<close>

lemma ln_100: "ln (100::real) = 2 * ln 10"
  using ln_realpow [of "10::real" 2] by simp

lemma log_frame:
  "to_frame log_host (Fin 1, Fin 0) (Fin 100, Fin 0) True =
     \<lparr> pt1 = (Fin 0, Fin 0), pt2 = (Fin 400, Fin 0),
       ax_xlim = (Fin 0, Fin (ln 100)), ax_ylim = (Fin 0, Fin 2),
       xscale = Fin (400 / ln 100), yscale = Fin 150 \<rparr>"
  by (simp add: to_frame_def log_host_def getAxSize_def is_log_linear is_log_log Let_def
      minus_npfloat_def ln_100)

lemma log_theta: "brace_theta (to_frame log_host (Fin 1, Fin 0) (Fin 100, Fin 0) True) = Fin 0"
  by (simp add: log_frame brace_theta_def minus_npfloat_def arctan2_def)

lemma log_r:
  "brace_r (to_frame log_host (Fin 1, Fin 0) (Fin 100, Fin 0) True) (Fin (1 / 10)) = Fin 40"
  by (simp add: log_frame brace_r_def minus_npfloat_def)

lemma log_pixel_summit:
  "last (fst (arc2 (arcs_pixel (to_frame log_host (Fin 1, Fin 0) (Fin 100, Fin 0) True) (Fin 0) (Fin 40)))) = Fin 200"
  "last (snd (arc2 (arcs_pixel (to_frame log_host (Fin 1, Fin 0) (Fin 100, Fin 0) True) (Fin 0) (Fin 40)))) = Fin 80"
proof -
  have p: "pt1 (to_frame log_host (Fin 1, Fin 0) (Fin 100, Fin 0) True) = (Fin 0, Fin 0)"
    "pt2 (to_frame log_host (Fin 1, Fin 0) (Fin 100, Fin 0) True) = (Fin 400, Fin 0)"
    by (simp_all add: log_frame)
  show "last (fst (arc2 (arcs_pixel (to_frame log_host (Fin 1, Fin 0) (Fin 100, Fin 0) True) (Fin 0) (Fin 40)))) = Fin 200"
    "last (snd (arc2 (arcs_pixel (to_frame log_host (Fin 1, Fin 0) (Fin 100, Fin 0) True) (Fin 0) (Fin 40)))) = Fin 80"
    by (simp_all add: pixel_ends(7,8) [OF p])
qed

section \<open>The range of float64\<close>

lemma float_max_big: "1000 \<le> float_max"
  by (simp add: float_max_def)

lemma overflow_Fin: "\<bar>a\<bar> \<le> float_max \<Longrightarrow> overflow (Fin a) = Fin a"
  by auto

lemma overflow_small: "\<bar>a\<bar> \<le> 1000 \<Longrightarrow> overflow (Fin a) = Fin a"
  using float_max_big by (intro overflow_Fin) linarith

lemma overflow_FinD: "overflow x = Fin a \<Longrightarrow> x = Fin a \<and> \<bar>a\<bar> \<le> float_max"
  by (cases x) (auto split: if_splits)

lemma overflow_idem [simp]: "overflow (overflow x) = overflow x"
  using float_max_big by (cases x) auto

lemma is_fin_overflowD: "is_fin (overflow x) \<Longrightarrow> \<exists>a. x = Fin a \<and> overflow x = Fin a \<and> \<bar>a\<bar> \<le> float_max"
  by (cases x) (auto split: if_splits)

lemma overflow_big:
  "float_max < a \<Longrightarrow> overflow (Fin a) = PInf"
  "a < - float_max \<Longrightarrow> overflow (Fin a) = NInf"
  using float_max_big by auto

declare overflow.simps(1) [simp del]

lemma overflow_zero [simp]: "overflow (Fin 0) = Fin 0"
  by (simp add: overflow_small)

lemma overflow_trig [simp]:
  "overflow (Fin (cos x)) = Fin (cos x)" "overflow (Fin (sin x)) = Fin (sin x)"
  "overflow (Fin (- cos x)) = Fin (- cos x)" "overflow (Fin (- sin x)) = Fin (- sin x)"
  using abs_cos_le_one [of x] abs_sin_le_one [of x] by (intro overflow_small; linarith)+

lemma plus_zero [simp]: "x + Fin 0 = x" "Fin 0 + x = x" "x - Fin 0 = x"
  by (cases x; simp add: minus_npfloat_def)+

lemma map_const_on:
  assumes "\<And>x. x \<in> set xs \<Longrightarrow> g x = c"
  shows "map g xs = replicate (length xs) c"
  using assms by (induction xs) auto

lemma const_arc:
  assumes "\<And>s. s \<in> set qs \<Longrightarrow> g (Fin s) = c" "length qs = 50"
  shows "map g (map Fin qs) = replicate 50 c" "map g (rev (map Fin qs)) = replicate 50 c"
  using map_const_on [of "map Fin qs" g c] map_const_on [of "rev (map Fin qs)" g c] assms
  by auto

lemma quarter_turn_el:
  assumes "s \<in> set (quarter_turn t)"
  shows "t \<le> s \<and> s \<le> t + pi / 2"
proof -
  from assms consider i where "i < 49" "s = real i * (pi / 2 / 49) + t" | "s = t + pi / 2"
    by (auto simp: quarter_turn_def)
  then show ?thesis
  proof cases
    case 1
    have "0 \<le> real i * (pi / 2 / 49)" by simp
    moreover have "real i * (pi / 2 / 49) \<le> 49 * (pi / 2 / 49)"
      using 1(1) by (intro mult_right_mono) auto
    ultimately show ?thesis using 1(2) by simp
  next
    case 2
    then show ?thesis using pi_gt_zero by simp
  qed
qed

lemma linspace_fp_overflow:
  assumes "\<bar>t\<bar> \<le> pi"
  shows "np_linspace_fp overflow (Fin t) (Fin (t + pi / 2)) 50 = map Fin (quarter_turn t)"
proof -
  have step: "overflow (overflow (Fin (t + pi / 2) - Fin t) / Fin (real (50 - 1))) = Fin (pi / 2 / 49)"
    using pi_gt_zero pi_less_4 by (simp add: minus_npfloat_def overflow_small)
  have el: "overflow (overflow (Fin (real i) * Fin (pi / 2 / 49)) + Fin t) =
      Fin (real i * (pi / 2 / 49) + t)" if "i \<in> set [0 ..< 50 - 1]" for i
  proof -
    from that have i: "i < 49" by simp
    have b: "0 \<le> real i * (pi / 2 / 49)" "real i * (pi / 2 / 49) \<le> 49 * (pi / 2 / 49)"
      using i by (auto intro!: mult_right_mono)
    then have 1: "\<bar>real i * (pi / 2 / 49)\<bar> \<le> 1000" using pi_less_4 by linarith
    have 2: "\<bar>real i * (pi / 2 / 49) + t\<bar> \<le> 1000" using b assms pi_less_4 by linarith
    have "overflow (Fin (real i) * Fin (pi / 2 / 49)) = Fin (real i * (pi / 2 / 49))"
      using overflow_small [OF 1] by simp
    then show ?thesis using overflow_small [OF 2] by simp
  qed
  have "map (\<lambda>i. overflow (overflow (Fin (real i) * Fin (pi / 2 / 49)) + Fin t)) [0 ..< 50 - 1] =
      map (\<lambda>i. Fin (real i * (pi / 2 / 49) + t)) [0 ..< 50 - 1]"
    by (rule map_cong [OF refl]) (rule el)
  then show ?thesis
    unfolding np_linspace_fp_def Let_def step quarter_turn_def
    by (simp add: comp_def)
qed

lemma arcs_pixel_fp_r0:
  assumes p: "pt1 f = (Fin X1, Fin Y1)" "pt2 f = (Fin X2, Fin Y2)"
    and b: "\<bar>X1\<bar> \<le> float_max" "\<bar>Y1\<bar> \<le> float_max" "\<bar>X2\<bar> \<le> float_max" "\<bar>Y2\<bar> \<le> float_max"
    and t: "\<bar>t\<bar> \<le> pi"
  shows "arcs_pixel_fp overflow f (Fin t) (Fin 0) =
    \<lparr> arc1 = (replicate 50 (Fin X1), replicate 50 (Fin Y1)),
      arc2 = (replicate 50 (overflow (overflow (Fin X2 + Fin X1) / Fin 2)),
              replicate 50 (overflow (overflow (Fin Y2 + Fin Y1) / Fin 2))),
      arc3 = (replicate 50 (overflow (overflow (Fin X2 + Fin X1) / Fin 2)),
              replicate 50 (overflow (overflow (Fin Y2 + Fin Y1) / Fin 2))),
      arc4 = (replicate 50 (Fin X2), replicate 50 (Fin Y2)) \<rparr>"
proof -
  have pi_r: "overflow (Fin pi) = Fin pi"
    using pi_gt_zero pi_less_4 by (simp add: overflow_small)
  have half: "overflow (Fin (pi / 2)) = Fin (pi / 2)"
    using pi_gt_zero pi_less_4 by (simp add: overflow_small)
  have stop: "overflow (Fin (t + pi / 2)) = Fin (t + pi / 2)"
    using t pi_less_4 by (intro overflow_small) linarith
  have q: "np_linspace_fp overflow (Fin t) (Fin (t + pi / 2)) 50 = map Fin (quarter_turn t)"
    by (rule linspace_fp_overflow [OF t])
  have pb: "overflow (Fin X1) = Fin X1" "overflow (Fin Y1) = Fin Y1"
    "overflow (Fin X2) = Fin X2" "overflow (Fin Y2) = Fin Y2"
    using b by (simp_all add: overflow_Fin)
  have el: "overflow (Fin (s + pi / 2)) = Fin (s + pi / 2)"
    "overflow (Fin (s - pi / 2)) = Fin (s - pi / 2)"
    "overflow (Fin (s + pi)) = Fin (s + pi)"
    if "s \<in> set (quarter_turn t)" for s
  proof -
    have r: "\<bar>s + pi / 2\<bar> \<le> 1000" "\<bar>s - pi / 2\<bar> \<le> 1000" "\<bar>s + pi\<bar> \<le> 1000"
      using quarter_turn_el [OF that] t pi_less_4 pi_gt_zero by linarith+
    show "overflow (Fin (s + pi / 2)) = Fin (s + pi / 2)"
      "overflow (Fin (s - pi / 2)) = Fin (s - pi / 2)"
      "overflow (Fin (s + pi)) = Fin (s + pi)"
      by (rule overflow_small [OF r(1)], rule overflow_small [OF r(2)], rule overflow_small [OF r(3)])
  qed
  note l = length_quarter_turn [of t]
  have a1: "map (\<lambda>a. overflow (overflow (Fin 0 * overflow (np_cos (overflow (a + Fin (pi / 2))))) + Fin X1))
      (rev (map Fin (quarter_turn t))) = replicate 50 (Fin X1)"
    "map (\<lambda>a. overflow (overflow (Fin 0 * overflow (np_sin (overflow (a + Fin (pi / 2))))) + Fin Y1))
      (rev (map Fin (quarter_turn t))) = replicate 50 (Fin Y1)"
    "map (\<lambda>a. overflow (overflow (Fin 0 * overflow (np_cos a)) + Fin X2))
      (rev (map Fin (quarter_turn t))) = replicate 50 (Fin X2)"
    "map (\<lambda>a. overflow (overflow (Fin 0 * overflow (np_sin a)) + Fin Y2))
      (rev (map Fin (quarter_turn t))) = replicate 50 (Fin Y2)"
    by (rule const_arc(2) [OF _ l], simp add: el pb)+
  have a2: "map (\<lambda>a. overflow (overflow (Fin 0 * overflow (np_cos (overflow (a - Fin (pi / 2))))) + M))
      (map Fin (quarter_turn t)) = replicate 50 (overflow M)"
    "map (\<lambda>a. overflow (overflow (Fin 0 * overflow (np_sin (overflow (a - Fin (pi / 2))))) + M))
      (map Fin (quarter_turn t)) = replicate 50 (overflow M)"
    "map (\<lambda>a. overflow (overflow (Fin 0 * overflow (np_cos (overflow (a + Fin pi)))) + M))
      (map Fin (quarter_turn t)) = replicate 50 (overflow M)"
    "map (\<lambda>a. overflow (overflow (Fin 0 * overflow (np_sin (overflow (a + Fin pi)))) + M))
      (map Fin (quarter_turn t)) = replicate 50 (overflow M)" for M
    by (rule const_arc(1) [OF _ l], simp add: el minus_npfloat_def)+
  show ?thesis
    by (simp add: arcs_pixel_fp_def Let_def p half pi_r stop q a1 a2 pb del: map_map)
qed

section \<open>Calls that stay in the range of float64\<close>

lemma frame_fp_fixed:
  "overflow (fst (pt1 (to_frame_fp overflow h p1 p2 b))) = fst (pt1 (to_frame_fp overflow h p1 p2 b))"
  "overflow (snd (pt1 (to_frame_fp overflow h p1 p2 b))) = snd (pt1 (to_frame_fp overflow h p1 p2 b))"
  "overflow (fst (pt2 (to_frame_fp overflow h p1 p2 b))) = fst (pt2 (to_frame_fp overflow h p1 p2 b))"
  "overflow (snd (pt2 (to_frame_fp overflow h p1 p2 b))) = snd (pt2 (to_frame_fp overflow h p1 p2 b))"
  by (simp_all add: to_frame_fp_def Let_def split_beta)

lemma to_frame_fp_same: "pt2 (to_frame_fp rnd h p p b) = pt1 (to_frame_fp rnd h p p b)"
  by (simp add: to_frame_fp_def Let_def split_beta)

lemma hypot_finD: "np_hypot u v = Fin d \<Longrightarrow> \<exists>a b. u = Fin a \<and> v = Fin b \<and> d = sqrt (a\<^sup>2 + b\<^sup>2)"
  by (cases u; cases v; simp)

lemma minus_finD: "x - y = Fin d \<Longrightarrow> \<exists>a b. x = Fin a \<and> y = Fin b \<and> d = a - b"
  by (cases x; cases y; simp add: minus_npfloat_def)

lemma plus_finD: "x + y = Fin d \<Longrightarrow> \<exists>a b. x = Fin a \<and> y = Fin b \<and> d = a + b"
  by (cases x; cases y; simp)

lemma frame_fp_range:
  assumes "pt1 (to_frame_fp overflow h p1 p2 b) = (Fin X1, Fin Y1)"
    and "pt2 (to_frame_fp overflow h p1 p2 b) = (Fin X2, Fin Y2)"
  shows "\<bar>X1\<bar> \<le> float_max" "\<bar>Y1\<bar> \<le> float_max" "\<bar>X2\<bar> \<le> float_max" "\<bar>Y2\<bar> \<le> float_max"
  using frame_fp_fixed [of h p1 p2 b] overflow_FinD [of "Fin X1" X1] overflow_FinD [of "Fin Y1" Y1]
    overflow_FinD [of "Fin X2" X2] overflow_FinD [of "Fin Y2" Y2]
  by (simp_all add: assms)

lemma chord_fin:
  assumes "is_fin (brace_chord_fp overflow f)"
  shows "\<exists>X1 Y1 X2 Y2. pt1 f = (Fin X1, Fin Y1) \<and> pt2 f = (Fin X2, Fin Y2) \<and>
      overflow (Fin X2 - Fin X1) = Fin (X2 - X1) \<and> overflow (Fin Y2 - Fin Y1) = Fin (Y2 - Y1) \<and>
      brace_chord_fp overflow f = Fin (sqrt ((X2 - X1)\<^sup>2 + (Y2 - Y1)\<^sup>2))"
proof -
  let ?dx = "fst (pt2 f) - fst (pt1 f)" and ?dy = "snd (pt2 f) - snd (pt1 f)"
  from is_fin_overflowD [OF assms [unfolded brace_chord_fp_def]] obtain d where
    d: "np_hypot (overflow ?dx) (overflow ?dy) = Fin d"
      "overflow (np_hypot (overflow ?dx) (overflow ?dy)) = Fin d"
    by blast
  from hypot_finD [OF d(1)] obtain a b where
    ab: "overflow ?dx = Fin a" "overflow ?dy = Fin b" "d = sqrt (a\<^sup>2 + b\<^sup>2)"
    by blast
  from overflow_FinD [OF ab(1)] overflow_FinD [OF ab(2)] have e: "?dx = Fin a" "?dy = Fin b"
    by simp_all
  from minus_finD [OF e(1)] obtain X2 X1 where
    x: "fst (pt2 f) = Fin X2" "fst (pt1 f) = Fin X1" "a = X2 - X1" by blast
  from minus_finD [OF e(2)] obtain Y2 Y1 where
    y: "snd (pt2 f) = Fin Y2" "snd (pt1 f) = Fin Y1" "b = Y2 - Y1" by blast
  have "pt1 f = (Fin X1, Fin Y1)" "pt2 f = (Fin X2, Fin Y2)"
    using x y by (simp_all add: prod_eq_iff)
  moreover have "overflow (Fin X2 - Fin X1) = Fin (X2 - X1)" "overflow (Fin Y2 - Fin Y1) = Fin (Y2 - Y1)"
    using ab(1,2) x y by simp_all
  moreover have "brace_chord_fp overflow f = Fin (sqrt ((X2 - X1)\<^sup>2 + (Y2 - Y1)\<^sup>2))"
    using d(2) ab(3) x(3) y(3) by (simp add: brace_chord_fp_def)
  ultimately show ?thesis by blast
qed

lemma theta_fp_fin:
  assumes "pt1 f = (Fin X1, Fin Y1)" "pt2 f = (Fin X2, Fin Y2)"
    and "overflow (Fin X2 - Fin X1) = Fin (X2 - X1)" "overflow (Fin Y2 - Fin Y1) = Fin (Y2 - Y1)"
  shows "brace_theta_fp overflow f = Fin (arctan2 (Y2 - Y1) (X2 - X1))"
proof -
  have "\<bar>arctan2 (Y2 - Y1) (X2 - X1)\<bar> \<le> 1000"
    using arctan2_bounds [of "Y2 - Y1" "X2 - X1"] pi_less_4 by linarith
  from overflow_small [OF this] show ?thesis
    by (simp add: brace_theta_fp_def assms)
qed

lemma label_angle_overflow:
  assumes "\<bar>t\<bar> \<le> pi"
  shows "\<exists>a. label_angle_fp overflow (Fin t) = Fin a \<and> 0 \<le> a \<and> a < 360"
proof -
  define d where "d = t * (180 / pi)"
  have "0 < 180 / pi" by simp
  moreover have "180 / pi \<le> 90" using pi_ge_two by (simp add: divide_le_eq)
  ultimately have c: "overflow (Fin (180 / pi)) = Fin (180 / pi)"
    by (intro overflow_small) linarith
  have "- 180 \<le> d" "d \<le> 180"
    using assms pi_gt_zero unfolding d_def by (auto simp: field_simps)
  then have dd: "overflow (Fin d) = Fin d"
    by (intro overflow_small) linarith
  define a where "a = d - of_int \<lfloor>d / 360\<rfloor> * 360"
  have r: "0 \<le> a" "a < 360" unfolding a_def by (rule remainder_range)+
  then have aa: "overflow (Fin a) = Fin a"
    by (intro overflow_small) linarith
  have "label_angle_fp overflow (Fin t) = Fin a"
    unfolding label_angle_fp_def c
    using dd aa by (simp add: d_def a_def)
  with r show ?thesis by blast
qed

lemma curlyBrace_fp_returns:
  assumes "label_angle_fp rnd (brace_theta_fp rnd (to_frame_fp rnd h p1 p2 b)) = Fin a"
    and "0 \<le> a" "a \<le> 360"
  shows "\<exists>calls. curlyBrace_fp rnd h p1 p2 k_r b str_text n =
           (calls, Inr (brace_geometry_fp rnd h p1 p2 k_r b))"
  by (simp add: curlyBrace_fp_def Let_def theta_geometry_fp label_call_fp_ang [OF assms])

lemma back_arc_fp_replicate:
  "back_arc_fp rnd h f (replicate m x, replicate m y) =
     (replicate m (back_x_fp rnd h f x), replicate m (back_y_fp rnd h f y))"
  by (simp add: back_arc_fp_def)

lemma data_arcs_fp:
  "arc1 (arcs_data_fp rnd h f a) = back_arc_fp rnd h f (arc1 a)"
  "arc2 (arcs_data_fp rnd h f a) = back_arc_fp rnd h f (arc2 a)"
  "arc3 (arcs_data_fp rnd h f a) = back_arc_fp rnd h f (arc3 a)"
  "arc4 (arcs_data_fp rnd h f a) = back_arc_fp rnd h f (arc4 a)"
  by (simp_all add: arcs_data_fp_def)

lemma zero_gain_back:
  assumes "is_fin (brace_chord_fp overflow (to_frame_fp overflow h p1 p2 bool_auto))"
  shows "(let f = to_frame_fp overflow h p1 p2 bool_auto;
              mx = overflow (overflow (fst (pt2 f) + fst (pt1 f)) / Fin 2);
              my = overflow (overflow (snd (pt2 f) + snd (pt1 f)) / Fin 2)
          in brace_r_fp overflow f (Fin 0) = Fin 0 \<and>
             arcs_pixel_fp overflow f (brace_theta_fp overflow f) (brace_r_fp overflow f (Fin 0)) =
               \<lparr> arc1 = (replicate 50 (fst (pt1 f)), replicate 50 (snd (pt1 f))),
                 arc2 = (replicate 50 mx, replicate 50 my),
                 arc3 = (replicate 50 mx, replicate 50 my),
                 arc4 = (replicate 50 (fst (pt2 f)), replicate 50 (snd (pt2 f))) \<rparr> \<and>
             (\<exists>calls res.
                curlyBrace_fp overflow h p1 p2 (Fin 0) bool_auto str_text n = (calls, Inr res) \<and>
                summit res = (back_x_fp overflow h f mx, back_y_fp overflow h f my) \<and>
                arc1 (result_arcs res) =
                  (replicate 50 (back_x_fp overflow h f (fst (pt1 f))),
                   replicate 50 (back_y_fp overflow h f (snd (pt1 f)))) \<and>
                arc2 (result_arcs res) =
                  (replicate 50 (fst (summit res)), replicate 50 (snd (summit res))) \<and>
                arc3 (result_arcs res) =
                  (replicate 50 (fst (summit res)), replicate 50 (snd (summit res))) \<and>
                arc4 (result_arcs res) =
                  (replicate 50 (back_x_fp overflow h f (fst (pt2 f))),
                   replicate 50 (back_y_fp overflow h f (snd (pt2 f))))))"
proof -
  let ?f = "to_frame_fp overflow h p1 p2 bool_auto"
  let ?g = "brace_geometry_fp overflow h p1 p2 (Fin 0) bool_auto"
  from chord_fin [OF assms] obtain X1 Y1 X2 Y2 where g:
    "pt1 ?f = (Fin X1, Fin Y1)" "pt2 ?f = (Fin X2, Fin Y2)"
    "overflow (Fin X2 - Fin X1) = Fin (X2 - X1)" "overflow (Fin Y2 - Fin Y1) = Fin (Y2 - Y1)"
    "brace_chord_fp overflow ?f = Fin (sqrt ((X2 - X1)\<^sup>2 + (Y2 - Y1)\<^sup>2))"
    by blast
  define t where "t = arctan2 (Y2 - Y1) (X2 - X1)"
  have th: "brace_theta_fp overflow ?f = Fin t"
    unfolding t_def by (rule theta_fp_fin [OF g(1-4)])
  have tb: "\<bar>t\<bar> \<le> pi"
    using arctan2_bounds [of "Y2 - Y1" "X2 - X1"] unfolding t_def by linarith
  have r: "brace_r_fp overflow ?f (Fin 0) = Fin 0"
    by (simp add: brace_r_fp_def g(5))
  note a = arcs_pixel_fp_r0 [OF g(1,2) frame_fp_range [OF g(1,2)] tb]
  from label_angle_overflow [OF tb] obtain ang where
    "label_angle_fp overflow (brace_theta_fp overflow ?f) = Fin ang" "0 \<le> ang" "ang \<le> 360"
    unfolding th by auto
  from curlyBrace_fp_returns [OF this, of "Fin 0" str_text n] obtain calls where
    c: "curlyBrace_fp overflow h p1 p2 (Fin 0) bool_auto str_text n = (calls, Inr ?g)"
    by blast
  have d: "result_arcs ?g = arcs_data_fp overflow h ?f (arcs_pixel_fp overflow ?f (Fin t) (Fin 0))"
    by (simp add: arcs_geometry_fp th r)
  have s: "summit ?g =
      (back_x_fp overflow h ?f (overflow (overflow (Fin X2 + Fin X1) / Fin 2)),
       back_y_fp overflow h ?f (overflow (overflow (Fin Y2 + Fin Y1) / Fin 2)))"
    by (simp add: summit_geometry_fp d a data_arcs_fp back_arc_fp_replicate)
  show ?thesis
    unfolding Let_def
    apply (intro conjI r)
     apply (simp add: th r a g(1,2))
    apply (rule exI [of _ calls], rule exI [of _ ?g])
    apply (simp add: c s d a data_arcs_fp back_arc_fp_replicate g(1,2))
    done
qed

lemma zero_chord_back:
  assumes "is_fin (overflow (fst (pt2 (to_frame_fp overflow h p p bool_auto)) +
                             fst (pt1 (to_frame_fp overflow h p p bool_auto))))"
    and "is_fin (overflow (snd (pt2 (to_frame_fp overflow h p p bool_auto)) +
                           snd (pt1 (to_frame_fp overflow h p p bool_auto))))"
    and "is_fin k_r"
  shows "(let f = to_frame_fp overflow h p p bool_auto;
              a = back_x_fp overflow h f (fst (pt1 f));
              b = back_y_fp overflow h f (snd (pt1 f))
          in brace_r_fp overflow f k_r = Fin 0 \<and>
             arcs_pixel_fp overflow f (brace_theta_fp overflow f) (brace_r_fp overflow f k_r) =
               \<lparr> arc1 = (replicate 50 (fst (pt1 f)), replicate 50 (snd (pt1 f))),
                 arc2 = (replicate 50 (fst (pt1 f)), replicate 50 (snd (pt1 f))),
                 arc3 = (replicate 50 (fst (pt1 f)), replicate 50 (snd (pt1 f))),
                 arc4 = (replicate 50 (fst (pt1 f)), replicate 50 (snd (pt1 f))) \<rparr> \<and>
             (\<exists>calls res.
                curlyBrace_fp overflow h p p k_r bool_auto str_text n = (calls, Inr res) \<and>
                theta res = Fin 0 \<and>
                arc1 (result_arcs res) = (replicate 50 a, replicate 50 b) \<and>
                arc2 (result_arcs res) = (replicate 50 a, replicate 50 b) \<and>
                arc3 (result_arcs res) = (replicate 50 a, replicate 50 b) \<and>
                arc4 (result_arcs res) = (replicate 50 a, replicate 50 b) \<and>
                summit res = (a, b)))"
proof -
  let ?f = "to_frame_fp overflow h p p bool_auto"
  let ?g = "brace_geometry_fp overflow h p p k_r bool_auto"
  note same = to_frame_fp_same [of overflow h p bool_auto]
  from is_fin_overflowD [OF assms(1)] obtain sx where
    sx: "fst (pt1 ?f) + fst (pt1 ?f) = Fin sx" "\<bar>sx\<bar> \<le> float_max"
    unfolding same by blast
  from plus_finD [OF sx(1)] sx(2) obtain X where x: "fst (pt1 ?f) = Fin X"
    "\<bar>X + X\<bar> \<le> float_max"
    by auto
  from is_fin_overflowD [OF assms(2)] obtain sy where
    sy: "snd (pt1 ?f) + snd (pt1 ?f) = Fin sy" "\<bar>sy\<bar> \<le> float_max"
    unfolding same by blast
  from plus_finD [OF sy(1)] sy(2) obtain Y where y: "snd (pt1 ?f) = Fin Y"
    "\<bar>Y + Y\<bar> \<le> float_max"
    by auto
  from is_finD [OF assms(3)] obtain k where k: "k_r = Fin k" by blast
  have p: "pt1 ?f = (Fin X, Fin Y)" "pt2 ?f = (Fin X, Fin Y)"
    using x(1) y(1) same by (simp_all add: prod_eq_iff)
  have th: "brace_theta_fp overflow ?f = Fin 0"
    by (simp add: brace_theta_fp_def p minus_npfloat_def arctan2_def)
  have r: "brace_r_fp overflow ?f k_r = Fin 0"
    by (simp add: brace_r_fp_def brace_chord_fp_def p minus_npfloat_def k)
  have m: "overflow (overflow (Fin X + Fin X) / Fin 2) = Fin X"
    "overflow (overflow (Fin Y + Fin Y) / Fin 2) = Fin Y"
    using overflow_Fin [OF x(2)] overflow_Fin [OF y(2)] frame_fp_range(1,2) [OF p]
    by (simp_all add: overflow_Fin)
  have tb: "\<bar>0::real\<bar> \<le> pi" by simp
  note a = arcs_pixel_fp_r0 [OF p frame_fp_range [OF p] tb, unfolded m]
  from label_angle_overflow [OF tb] obtain ang where
    "label_angle_fp overflow (brace_theta_fp overflow ?f) = Fin ang" "0 \<le> ang" "ang \<le> 360"
    unfolding th by auto
  from curlyBrace_fp_returns [OF this, of k_r str_text n] obtain calls where
    c: "curlyBrace_fp overflow h p p k_r bool_auto str_text n = (calls, Inr ?g)"
    by blast
  have d: "result_arcs ?g = arcs_data_fp overflow h ?f (arcs_pixel_fp overflow ?f (Fin 0) (Fin 0))"
    by (simp add: arcs_geometry_fp th r)
  have s: "summit ?g = (back_x_fp overflow h ?f (Fin X), back_y_fp overflow h ?f (Fin Y))"
    by (simp add: summit_geometry_fp d a data_arcs_fp back_arc_fp_replicate)
  show ?thesis
    unfolding Let_def
    apply (intro conjI r)
     apply (simp add: th r a p)
    apply (rule exI [of _ calls], rule exI [of _ ?g])
    apply (simp add: c s d a data_arcs_fp back_arc_fp_replicate p theta_geometry_fp th)
    done
qed

section \<open>NaN in the range of float64\<close>

lemma arcs_pixel_fp_nan_r: "arcs_pixel_fp overflow f th NaN = nan_arcs"
  by (simp add: arcs_pixel_fp_def Let_def nan_absorbs nan_arcs_def map_replicate_const
      np_linspace_fp_length)

lemma arcs_pixel_fp_nan_theta: "arcs_pixel_fp overflow f NaN r = nan_arcs"
proof -
  have "replicate 49 NaN @ [NaN] = replicate 50 NaN"
    using replicate_Suc [of 49 NaN] by (simp add: replicate_append_same)
  then have q: "np_linspace_fp overflow NaN NaN 50 = replicate 50 NaN"
    by (simp add: np_linspace_fp_def Let_def nan_absorbs map_replicate_const)
  show ?thesis
    by (simp add: arcs_pixel_fp_def Let_def q nan_absorbs nan_arcs_def)
qed

lemma back_fp_nan: "back_x_fp overflow h f NaN = NaN" "back_y_fp overflow h f NaN = NaN"
  by (simp_all add: back_x_fp_def back_y_fp_def Let_def nan_absorbs)

lemma arcs_data_fp_nan: "arcs_data_fp overflow h f nan_arcs = nan_arcs"
  by (simp add: arcs_data_fp_def nan_arcs_def back_arc_fp_def back_fp_nan)

lemma geometry_fp_nan:
  assumes "arcs_pixel_fp overflow (to_frame_fp overflow h p1 p2 bool_auto)
             (brace_theta_fp overflow (to_frame_fp overflow h p1 p2 bool_auto))
             (brace_r_fp overflow (to_frame_fp overflow h p1 p2 bool_auto) k_r) = nan_arcs"
  shows "brace_geometry_fp overflow h p1 p2 k_r bool_auto =
           \<lparr> theta = brace_theta_fp overflow (to_frame_fp overflow h p1 p2 bool_auto),
             summit = (NaN, NaN), result_arcs = nan_arcs \<rparr>"
proof -
  have "last (replicate 50 NaN) = NaN" by simp
  then show ?thesis
    by (simp add: brace_geometry_fp_def Let_def assms arcs_data_fp_nan)
      (simp add: nan_arcs_def)
qed

lemma label_call_fp_nan: "label_call_fp overflow NaN anchor str_text n = Inl UnboundLocalError"
  by (simp add: label_call_fp_def label_angle_fp_def Let_def nan_absorbs)

section \<open>Examples in the range of float64\<close>

lemma sqrt_62500: "sqrt (62500::real) = 250"
  by (rule real_sqrt_unique) simp_all

lemma scenario_frame_fp:
  "to_frame_fp overflow scenario_host (Fin 0, Fin 0) (Fin 1, Fin 1) True =
     \<lparr> pt1 = (Fin 0, Fin 0), pt2 = (Fin 200, Fin 150),
       ax_xlim = (Fin 0, Fin 2), ax_ylim = (Fin 0, Fin 2),
       xscale = Fin 200, yscale = Fin 150 \<rparr>"
  by (simp add: to_frame_fp_def getAxSize_fp_def scenario_host_def is_log_linear Let_def
      minus_npfloat_def overflow_small)

lemma scenario_chord_fp:
  "brace_chord_fp overflow (to_frame_fp overflow scenario_host (Fin 0, Fin 0) (Fin 1, Fin 1) True) =
     Fin 250"
  by (simp add: brace_chord_fp_def scenario_frame_fp minus_npfloat_def overflow_small sqrt_62500)

lemma overflow_max:
  "overflow (Fin float_max) = Fin float_max" "overflow (Fin (- float_max)) = Fin (- float_max)"
  "overflow (Fin (2 * float_max)) = PInf" "overflow (Fin (float_max * 200)) = PInf"
  using float_max_big by (simp_all add: overflow_Fin overflow_big)

lemma max_frame_fp:
  "to_frame_fp overflow scenario_host (Fin (- float_max), Fin 0) (Fin float_max, Fin 0) False =
     \<lparr> pt1 = (Fin (- float_max), Fin 0), pt2 = (Fin float_max, Fin 0),
       ax_xlim = (Fin 0, Fin 2), ax_ylim = (Fin 0, Fin 2),
       xscale = Fin 1, yscale = Fin 1 \<rparr>"
  by (simp add: to_frame_fp_def getAxSize_fp_def scenario_host_def is_log_linear Let_def
      minus_npfloat_def overflow_max)

lemma unit_frame_fp:
  "to_frame_fp overflow scenario_host (Fin 1, Fin 1) (Fin 1, Fin 1) True =
     \<lparr> pt1 = (Fin 200, Fin 150), pt2 = (Fin 200, Fin 150),
       ax_xlim = (Fin 0, Fin 2), ax_ylim = (Fin 0, Fin 2),
       xscale = Fin 200, yscale = Fin 150 \<rparr>"
  by (simp add: to_frame_fp_def getAxSize_fp_def scenario_host_def is_log_linear Let_def
      minus_npfloat_def overflow_small)

lemma max_frame_auto_fp:
  "to_frame_fp overflow scenario_host (Fin float_max, Fin 0) (Fin float_max, Fin 0) True =
     \<lparr> pt1 = (PInf, Fin 0), pt2 = (PInf, Fin 0),
       ax_xlim = (Fin 0, Fin 2), ax_ylim = (Fin 0, Fin 2),
       xscale = Fin 200, yscale = Fin 150 \<rparr>"
  by (simp add: to_frame_fp_def getAxSize_fp_def scenario_host_def is_log_linear Let_def
      minus_npfloat_def overflow_small overflow_max)

section \<open>The lower limit and the angle\<close>

text \<open>
  Without automatic scaling the lower limit of an axis is still subtracted from both
  coordinates before their difference is taken. In the range of float64 it can decide
  the angle: from \<open>(0, 0)\<close> to \<open>(M, 1)\<close>, with \<open>M\<close> the largest finite float64, the
  angle is \<open>arctan (1 / M)\<close> when the lower x limit is 0 and 0 when it is \<open>-M\<close>, where
  \<open>M - (-M)\<close> overflows.
\<close>

lemma lower_limit_enters_theta:
  "brace_theta_fp overflow
     (to_frame_fp overflow (scenario_host \<lparr> get_xlim := (Fin (- float_max), Fin 2) \<rparr>)
        (Fin 0, Fin 0) (Fin float_max, Fin 1) False) = Fin 0 \<and>
   brace_theta_fp overflow
     (to_frame_fp overflow scenario_host (Fin 0, Fin 0) (Fin float_max, Fin 1) False) =
     Fin (arctan (1 / float_max)) \<and>
   arctan (1 / float_max) \<noteq> 0"
proof -
  have m: "0 < float_max" using float_max_big by simp
  have a: "\<bar>arctan (1 / float_max)\<bar> \<le> 1000"
    using arctan_bounded [of "1 / float_max"] pi_less_4 by linarith
  have 1: "brace_theta_fp overflow
     (to_frame_fp overflow (scenario_host \<lparr> get_xlim := (Fin (- float_max), Fin 2) \<rparr>)
        (Fin 0, Fin 0) (Fin float_max, Fin 1) False) = Fin 0"
    by (simp add: brace_theta_fp_def to_frame_fp_def getAxSize_fp_def scenario_host_def
        is_log_linear Let_def minus_npfloat_def overflow_small overflow_max)
  have 2: "brace_theta_fp overflow
     (to_frame_fp overflow scenario_host (Fin 0, Fin 0) (Fin float_max, Fin 1) False) =
     Fin (arctan (1 / float_max))"
    using m overflow_small [OF a]
    by (simp add: brace_theta_fp_def to_frame_fp_def getAxSize_fp_def scenario_host_def
        is_log_linear Let_def minus_npfloat_def overflow_small overflow_max arctan2_def)
  have 3: "arctan (1 / float_max) \<noteq> 0"
    using m by (simp add: arctan_eq_zero_iff)
  show ?thesis using 1 2 3 by blast
qed

section \<open>Swapping the endpoints, with exact operations\<close>

text \<open>
  With exact operations, on every valid call whose endpoints differ in x, the angle in
  degrees modulo 360 of the swapped call is that of the call plus or minus 180, and
  neither is 90 or 270.
\<close>

lemma swap_angles_exact:
  assumes "valid_call h p1 p2 k_r" and "fst p1 \<noteq> fst p2"
  shows "\<exists>a a'.
      label_angle_fp (\<lambda>x. x) (brace_theta_fp (\<lambda>x. x) (to_frame_fp (\<lambda>x. x) h p1 p2 bool_auto)) = Fin a \<and>
      label_angle_fp (\<lambda>x. x) (brace_theta_fp (\<lambda>x. x) (to_frame_fp (\<lambda>x. x) h p2 p1 bool_auto)) = Fin a' \<and>
      (0 \<le> a \<and> a \<le> 360 \<and> 0 \<le> a' \<and> a' \<le> 360) \<and>
      (a' = a + 180 \<or> a' = a - 180) \<and>
      (a \<noteq> 90 \<and> a \<noteq> 270)"
proof -
  let ?f = "to_frame h p1 p2 bool_auto"
  let ?f' = "to_frame h p2 p1 bool_auto"
  from assms(1) obtain X1 Y1 X2 Y2 xl xh yl yh sx sy k where g:
    "?f = \<lparr> pt1 = (Fin X1, Fin Y1), pt2 = (Fin X2, Fin Y2),
         ax_xlim = (Fin xl, Fin xh), ax_ylim = (Fin yl, Fin yh),
         xscale = Fin sx, yscale = Fin sy \<rparr>"
    "brace_theta ?f = Fin (arctan2 (Y2 - Y1) (X2 - X1))"
    "back_x h ?f (Fin X1) = fst p1" "back_x h ?f (Fin X2) = fst p2"
    by (rule geometry_fin [where bool_auto = bool_auto]) blast
  have ne: "X2 - X1 \<noteq> 0" using g(3,4) assms(2) by auto
  define t where "t = arctan2 (Y2 - Y1) (X2 - X1)"
  define t' where "t' = (if 0 < t then t - pi else t + pi)"
  define a where "a = t * (180 / pi)"
  define b where "b = (if 0 < a then a - 180 else a + 180)"
  define ang where "ang = a - of_int \<lfloor>a / 360\<rfloor> * 360"
  define ang' where "ang' = b - of_int \<lfloor>b / 360\<rfloor> * 360"
  have th: "brace_theta ?f = Fin t" by (simp add: g(2) t_def)
  have e: "arctan2 (Y1 - Y2) (X1 - X2) = arctan2 (- (Y2 - Y1)) (- (X2 - X1))"
    by simp
  have "arctan2 (Y1 - Y2) (X1 - X2) = t'"
    unfolding e t'_def t_def by (rule arctan2_swap) (use ne in simp)
  moreover have "brace_theta ?f' = Fin (arctan2 (Y1 - Y2) (X1 - X2))"
    by (simp add: brace_theta_def to_frame_swap g(1) minus_npfloat_def)
  ultimately have th': "brace_theta ?f' = Fin t'"
    by simp
  have tb: "t' * (180 / pi) = b"
  proof (cases "0 < t")
    case True
    then have "0 < a" using degrees_facts(5) [of t] unfolding a_def by blast
    with True show ?thesis by (simp only: t'_def b_def a_def if_True degrees_facts(6))
  next
    case False
    then have "\<not> 0 < a" using degrees_facts(5) [of t] unfolding a_def by blast
    with False show ?thesis by (simp only: t'_def b_def a_def if_False degrees_facts(7))
  qed
  have r: "- 180 < a" "a \<le> 180" "a \<noteq> 90" "a \<noteq> - 90"
    using arctan2_bounds [of "Y2 - Y1" "X2 - X1", folded t_def]
      arctan2_not_vertical [OF ne, of "Y2 - Y1", folded t_def]
      degrees_facts(1-4) [of t]
    unfolding a_def by blast+
  have 1: "ang = (if 0 \<le> a then a else a + 360)"
    unfolding ang_def using r(1,2) by (intro norm360) simp_all
  have 2: "ang' = (if 0 \<le> b then b else b + 360)"
    unfolding ang'_def using r(1,2) by (intro norm360) (simp_all add: b_def)
  have l: "label_angle_fp (\<lambda>x. x) (brace_theta_fp (\<lambda>x. x) (to_frame_fp (\<lambda>x. x) h p1 p2 bool_auto)) = Fin ang"
    unfolding label_angle_fp_exact brace_theta_fp_exact to_frame_fp_exact th remainder_of_fin
    by (simp only: ang_def a_def)
  have l': "label_angle_fp (\<lambda>x. x) (brace_theta_fp (\<lambda>x. x) (to_frame_fp (\<lambda>x. x) h p2 p1 bool_auto)) = Fin ang'"
    unfolding label_angle_fp_exact brace_theta_fp_exact to_frame_fp_exact th' remainder_of_fin
    by (simp only: ang'_def tb)
  have "(0 \<le> ang \<and> ang \<le> 360 \<and> 0 \<le> ang' \<and> ang' \<le> 360) \<and>
      (ang' = ang + 180 \<or> ang' = ang - 180) \<and> (ang \<noteq> 90 \<and> ang \<noteq> 270)"
    using r unfolding 1 2 b_def by (auto split: if_splits)
  with l l' show ?thesis by blast
qed

section \<open>The claims\<close>




text \<open>
  Claim C2, as amended. When an axis is logarithmic and an endpoint coordinate on it is
  zero or negative, \<^verbatim>\<open>curlyBrace\<close> makes no check and reports no domain error: the
  logarithm gives \<open>-inf\<close> or NaN, which the arithmetic carries on. The call without a
  label returns a result after its six plot calls, although the endpoints in pixels are
  not all finite; when the coordinate is negative, the returned angle, the summit and
  every coordinate of every arc are NaN.
\<close>

theorem no_domain_check_on_log_axis:
  assumes "is_log (get_xscale h) \<and> (is_nonpositive (fst p1) \<or> is_nonpositive (fst p2)) \<or>
           is_log (get_yscale h) \<and> (is_nonpositive (snd p1) \<or> is_nonpositive (snd p2))"
  shows "(\<exists>plots res. curlyBrace h p1 p2 k_r bool_auto [] n = (plots, Inr res) \<and>
            length plots = 6) \<and>
         \<not> (is_fin (fst (pt1 (to_frame h p1 p2 bool_auto))) \<and>
            is_fin (snd (pt1 (to_frame h p1 p2 bool_auto))) \<and>
            is_fin (fst (pt2 (to_frame h p1 p2 bool_auto))) \<and>
            is_fin (snd (pt2 (to_frame h p1 p2 bool_auto)))) \<and>
         (is_log (get_xscale h) \<and> (is_negative (fst p1) \<or> is_negative (fst p2)) \<or>
          is_log (get_yscale h) \<and> (is_negative (snd p1) \<or> is_negative (snd p2)) \<longrightarrow>
          (\<exists>plots.
             curlyBrace h p1 p2 k_r bool_auto [] n =
               (plots, Inr \<lparr> theta = NaN, summit = (NaN, NaN), result_arcs = nan_arcs \<rparr>) \<and>
             length plots = 6))"
  using curlyBrace_without_label [of h p1 p2 k_r bool_auto n]
    nan_on_negative_log_coordinate [of h p1 p2 k_r bool_auto n]
    pixels_not_finite [OF assms, of bool_auto]
  by blast

theorem no_domain_check_on_log_axis_witness:
  "is_log (get_xscale log_host) \<and> is_nonpositive (fst (Fin (- 1), Fin 0)) \<and>
   is_negative (fst (Fin (- 1), Fin 0)) \<and>
   (\<exists>plots.
      curlyBrace log_host (Fin (- 1), Fin 0) (Fin 50, Fin 1) (Fin (1 / 10)) True [] 2 =
        (plots, Inr \<lparr> theta = NaN, summit = (NaN, NaN), result_arcs = nan_arcs \<rparr>) \<and>
      length plots = 6)"
proof -
  have l: "is_log (get_xscale log_host)" "is_negative (fst (Fin (- 1), Fin 0))"
    "is_nonpositive (fst (Fin (- 1), Fin 0))"
    by (simp_all add: log_host_def is_log_log)
  from no_domain_check_on_log_axis [OF log_host_nonpositive, of "Fin (1 / 10)" True 2]
  show ?thesis using l by blast
qed

text \<open>
  Claim C2 as stated fails: on a logarithmic x axis the call from \<open>(-1, 0)\<close> to
  \<open>(50, 1)\<close> and the call from \<open>(0, 0)\<close> to \<open>(0, 1)\<close>, both without a label, return
  normally, and the geometry they return is NaN throughout.
\<close>

theorem no_domain_error_counterexample:
  "snd (curlyBrace log_host (Fin (- 1), Fin 0) (Fin 50, Fin 1) (Fin (1 / 10)) True [] 2) =
     Inr \<lparr> theta = NaN, summit = (NaN, NaN), result_arcs = nan_arcs \<rparr> \<and>
   snd (curlyBrace log_host (Fin 0, Fin 0) (Fin 0, Fin 1) (Fin (1 / 10)) True [] 2) =
     Inr \<lparr> theta = NaN, summit = (NaN, NaN), result_arcs = nan_arcs \<rparr> \<and>
   np_log (Fin (- 1)) = NaN \<and> np_log (Fin 0) = NInf"
proof -
  have 1: "brace_theta (to_frame log_host (Fin (- 1), Fin 0) (Fin 50, Fin 1) True) = NaN"
    by (rule theta_nan_on_log_axis) (simp add: log_host_def is_log_log)
  have 2: "brace_theta (to_frame log_host (Fin 0, Fin 0) (Fin 0, Fin 1) True) = NaN"
    by (simp add: brace_theta_def to_frame_def log_host_def getAxSize_def is_log_log
        is_log_linear Let_def minus_npfloat_def)
  show ?thesis
    by (simp add: curlyBrace_def Let_def geometry_nan [OF 1] geometry_nan [OF 2])
qed




text \<open>
  Claim C4, as amended. With \<^verbatim>\<open>bool_auto = False\<close> the call without a label returns,
  every call that returns returns the same tuple, and its angle is the \<open>atan2\<close> of the
  differences of the two endpoints' limit-shifted coordinates,
  \<open>theta = atan2 ((Y2 - ylo) - (Y1 - ylo), (X2 - xlo) - (X1 - xlo))\<close>, where the
  coordinates \<open>X\<close>, \<open>Y\<close> and the lower limits \<open>xlo\<close>, \<open>ylo\<close> are taken as given on a
  linear axis and as their natural logarithms on a logarithmic axis, and every operation
  delivers a float64 (for any rounding under which a float64 rounds to itself). The
  upper limits and the extent of the axes do not enter. The lower limit is subtracted
  from each coordinate before the difference is taken (lines 230-236); when the
  subtractions are exact it cancels (lemma \<open>theta_no_auto\<close>), and on two linear axes the
  angle is then \<open>atan2 (p2.y - p1.y, p2.x - p1.x)\<close>, as the claim says; when they are
  not, it can change the angle (lemma \<open>lower_limit_enters_theta\<close>).
\<close>

theorem theta_without_auto_scale:
  assumes "\<forall>x. rnd (rnd x) = rnd x"
  shows "\<exists>plots res.
     curlyBrace_fp rnd h p1 p2 k_r False [] n = (plots, Inr res) \<and>
     (\<forall>calls res'. curlyBrace_fp rnd h p1 p2 k_r False str_text n = (calls, Inr res') \<longrightarrow>
        res' = res) \<and>
     (let X1 = (if is_log (get_xscale h) then rnd (np_log (fst p1)) else fst p1);
          X2 = (if is_log (get_xscale h) then rnd (np_log (fst p2)) else fst p2);
          xlo = (if is_log (get_xscale h) then rnd (np_log (fst (get_xlim h))) else fst (get_xlim h));
          Y1 = (if is_log (get_yscale h) then rnd (np_log (snd p1)) else snd p1);
          Y2 = (if is_log (get_yscale h) then rnd (np_log (snd p2)) else snd p2);
          ylo = (if is_log (get_yscale h) then rnd (np_log (fst (get_ylim h))) else fst (get_ylim h))
      in theta res =
           rnd (np_arctan2 (rnd (rnd (Y2 - ylo) - rnd (Y1 - ylo)))
                           (rnd (rnd (X2 - xlo) - rnd (X1 - xlo)))))"
proof -
  from curlyBrace_fp_without_label [of rnd h p1 p2 k_r False n] obtain plots where
    c: "curlyBrace_fp rnd h p1 p2 k_r False [] n =
          (plots, Inr (brace_geometry_fp rnd h p1 p2 k_r False))"
    by blast
  show ?thesis
    apply (rule exI [of _ plots], rule exI [of _ "brace_geometry_fp rnd h p1 p2 k_r False"])
    apply (intro conjI c allI impI)
     apply (erule curlyBrace_fp_same_result)
    apply (simp add: theta_geometry_fp theta_fp_no_auto [OF assms] Let_def)
    done
qed

theorem theta_without_auto_scale_witness:
  "(\<forall>x::npfloat. (\<lambda>x. x) ((\<lambda>x. x) x) = (\<lambda>x. x) x) \<and>
   \<not> is_log (get_xscale (scenario_host \<lparr> get_xlim := (Fin 1, Fin 3) \<rparr>)) \<and>
   \<not> is_log (get_yscale (scenario_host \<lparr> get_xlim := (Fin 1, Fin 3) \<rparr>)) \<and>
   (\<exists>plots res.
      curlyBrace_fp (\<lambda>x. x) (scenario_host \<lparr> get_xlim := (Fin 1, Fin 3) \<rparr>)
          (Fin 2, Fin 0) (Fin 1, Fin 1) (Fin (1 / 10)) False [] 2 = (plots, Inr res) \<and>
      theta res =
        np_arctan2 ((Fin 1 - Fin 0) - (Fin 0 - Fin 0)) ((Fin 1 - Fin 1) - (Fin 2 - Fin 1)) \<and>
      theta res = Fin (3 * pi / 4))"
proof -
  let ?h = "scenario_host \<lparr> get_xlim := (Fin 1, Fin 3) \<rparr>"
  have l: "\<not> is_log (get_xscale ?h)" "\<not> is_log (get_yscale ?h)"
    by (simp_all add: scenario_host_def is_log_linear)
  have i: "\<forall>x::npfloat. (\<lambda>x. x) ((\<lambda>x. x) x) = (\<lambda>x. x) x" by simp
  from theta_without_auto_scale [OF i, of ?h "(Fin 2, Fin 0)" "(Fin 1, Fin 1)"
      "Fin (1 / 10)" 2 "[]"]
  obtain plots res where r:
    "curlyBrace_fp (\<lambda>x. x) ?h (Fin 2, Fin 0) (Fin 1, Fin 1) (Fin (1 / 10)) False [] 2 =
        (plots, Inr res)"
    "theta res =
       np_arctan2 ((Fin 1 - Fin 0) - (Fin 0 - Fin 0)) ((Fin 1 - Fin 1) - (Fin 2 - Fin 1))"
    using l by (auto simp: Let_def scenario_host_def)
  have "arctan2 1 (- 1) = 3 * pi / 4"
    by (simp add: arctan2_def arctan_minus arctan_one)
  then have "theta res = Fin (3 * pi / 4)"
    by (simp add: r(2) minus_npfloat_def)
  with r l show ?thesis by auto
qed

text \<open>
  Claim C4 as stated fails on a logarithmic axis: with the x axis logarithmic,
  \<open>p1 = (1, 0)\<close>, \<open>p2 = (2, 1)\<close> and \<^verbatim>\<open>bool_auto = False\<close> the returned angle is
  \<open>atan2 (1, ln 2)\<close>, not \<open>atan2 (1, 1)\<close>.
\<close>

theorem theta_on_log_axis_counterexample:
  "snd (curlyBrace log_host (Fin 1, Fin 0) (Fin 2, Fin 1) (Fin (1 / 10)) False [] 2) =
     Inr (brace_geometry log_host (Fin 1, Fin 0) (Fin 2, Fin 1) (Fin (1 / 10)) False) \<and>
   theta (brace_geometry log_host (Fin 1, Fin 0) (Fin 2, Fin 1) (Fin (1 / 10)) False) =
     Fin (arctan2 1 (ln 2)) \<and>
   np_arctan2 (Fin 1 - Fin 0) (Fin 2 - Fin 1) = Fin (arctan2 1 1) \<and>
   theta (brace_geometry log_host (Fin 1, Fin 0) (Fin 2, Fin 1) (Fin (1 / 10)) False) \<noteq>
     np_arctan2 (Fin 1 - Fin 0) (Fin 2 - Fin 1)"
proof -
  have t: "brace_theta (to_frame log_host (Fin 1, Fin 0) (Fin 2, Fin 1) False) =
      Fin (arctan2 1 (ln 2))"
    by (simp add: brace_theta_def to_frame_def Let_def log_host_def getAxSize_def
        is_log_log is_log_linear minus_npfloat_def)
  show ?thesis
    using ln2_angle
    by (simp add: curlyBrace_def Let_def theta_geometry t minus_npfloat_def)
qed

text \<open>
  Claim C5. On every call, whatever the rounding of the arithmetic: the call without a
  label returns, every call that returns returns the same tuple, and the summit in it is
  the last sampled point of \<^verbatim>\<open>arc2\<close> as returned. The returned \<^verbatim>\<open>arc2\<close> is the
  arc in pixels converted back point by point (each coordinate divided by the scale
  factor, the lower limit added, and the exponential applied on a logarithmic axis), so
  the summit is the last point of \<^verbatim>\<open>arc2\<close> in pixels after exactly this
  conversion. \<^verbatim>\<open>arc2\<close> has 50 points.
\<close>

theorem summit_is_last_of_arc2:
  "\<exists>plots res.
     curlyBrace_fp rnd h p1 p2 k_r bool_auto [] n = (plots, Inr res) \<and>
     (\<forall>calls res'. curlyBrace_fp rnd h p1 p2 k_r bool_auto str_text n = (calls, Inr res') \<longrightarrow>
        res' = res) \<and>
     length (fst (arc2 (result_arcs res))) = 50 \<and>
     length (snd (arc2 (result_arcs res))) = 50 \<and>
     summit res = (last (fst (arc2 (result_arcs res))), last (snd (arc2 (result_arcs res)))) \<and>
     (let f = to_frame_fp rnd h p1 p2 bool_auto;
          A = arcs_pixel_fp rnd f (brace_theta_fp rnd f) (brace_r_fp rnd f k_r);
          inv_x = (\<lambda>v. let w = rnd (rnd (v / xscale f) + fst (ax_xlim f))
                       in if is_log (get_xscale h) then rnd (np_exp w) else w);
          inv_y = (\<lambda>v. let w = rnd (rnd (v / yscale f) + fst (ax_ylim f))
                       in if is_log (get_yscale h) then rnd (np_exp w) else w)
      in arc2 (result_arcs res) = (map inv_x (fst (arc2 A)), map inv_y (snd (arc2 A))) \<and>
         summit res = (inv_x (last (fst (arc2 A))), inv_y (last (snd (arc2 A)))))"
proof -
  let ?g = "brace_geometry_fp rnd h p1 p2 k_r bool_auto"
  let ?f = "to_frame_fp rnd h p1 p2 bool_auto"
  let ?A = "arcs_pixel_fp rnd ?f (brace_theta_fp rnd ?f) (brace_r_fp rnd ?f k_r)"
  from curlyBrace_fp_without_label [of rnd h p1 p2 k_r bool_auto n] obtain plots where
    c: "curlyBrace_fp rnd h p1 p2 k_r bool_auto [] n = (plots, Inr ?g)"
    by blast
  have a: "arc2 (result_arcs ?g) =
      (map (\<lambda>v. let w = rnd (rnd (v / xscale ?f) + fst (ax_xlim ?f))
                 in if is_log (get_xscale h) then rnd (np_exp w) else w) (fst (arc2 ?A)),
       map (\<lambda>v. let w = rnd (rnd (v / yscale ?f) + fst (ax_ylim ?f))
                 in if is_log (get_yscale h) then rnd (np_exp w) else w) (snd (arc2 ?A)))"
    by (simp add: arcs_geometry_fp arc2_data_fp back_arc_fp_def back_x_fp_def back_y_fp_def
        fun_eq_iff cong: map_cong)
  have l: "length (fst (arc2 (result_arcs ?g))) = 50" "length (snd (arc2 (result_arcs ?g))) = 50"
    by (simp_all add: arcs_geometry_fp arc2_data_fp back_arc_fp_def arcs_pixel_fp_length)
  have s: "summit ?g =
      ((\<lambda>v. let w = rnd (rnd (v / xscale ?f) + fst (ax_xlim ?f))
             in if is_log (get_xscale h) then rnd (np_exp w) else w) (last (fst (arc2 ?A))),
       (\<lambda>v. let w = rnd (rnd (v / yscale ?f) + fst (ax_ylim ?f))
             in if is_log (get_yscale h) then rnd (np_exp w) else w) (last (snd (arc2 ?A))))"
    using summit_fp_unfolded [of rnd h p1 p2 k_r bool_auto] by (simp add: Let_def)
  show ?thesis
    apply (rule exI [of _ plots], rule exI [of _ ?g])
    apply (intro conjI c allI impI l summit_geometry_fp)
     apply (erule curlyBrace_fp_same_result)
    apply (unfold Let_def)
    apply (intro conjI)
     apply (rule a [unfolded Let_def])
    apply (rule s [unfolded Let_def])
    done
qed

theorem summit_is_last_of_arc2_witness:
  "is_log (get_xscale log_host) \<and> \<not> is_log (get_yscale log_host) \<and>
   (\<exists>plots calls res.
      curlyBrace_fp (\<lambda>x. x) log_host (Fin 1, Fin 0) (Fin 100, Fin 0) (Fin (1 / 10)) True [] 2 =
        (plots, Inr res) \<and>
      curlyBrace_fp (\<lambda>x. x) log_host (Fin 1, Fin 0) (Fin 100, Fin 0) (Fin (1 / 10)) True ''Span'' 2 =
        (calls, Inr res) \<and>
      summit res = (last (fst (arc2 (result_arcs res))), last (snd (arc2 (result_arcs res)))) \<and>
      summit res = (np_exp (Fin 200 / Fin (400 / ln 100) + Fin 0), Fin 80 / Fin 150 + Fin 0) \<and>
      summit res = (Fin 10, Fin (8 / 15)))"
proof -
  let ?f = "to_frame log_host (Fin 1, Fin 0) (Fin 100, Fin 0) True"
  have l: "is_log (get_xscale log_host)" "\<not> is_log (get_yscale log_host)"
    by (simp_all add: log_host_def is_log_linear is_log_log)
  from summit_is_last_of_arc2 [of "\<lambda>x. x" log_host "(Fin 1, Fin 0)" "(Fin 100, Fin 0)"
      "Fin (1 / 10)" True 2 "''Span''"]
  obtain plots res where r:
    "curlyBrace_fp (\<lambda>x. x) log_host (Fin 1, Fin 0) (Fin 100, Fin 0) (Fin (1 / 10)) True [] 2 =
        (plots, Inr res)"
    "\<forall>calls res'.
       curlyBrace_fp (\<lambda>x. x) log_host (Fin 1, Fin 0) (Fin 100, Fin 0) (Fin (1 / 10)) True ''Span'' 2 =
         (calls, Inr res') \<longrightarrow> res' = res"
    "summit res = (last (fst (arc2 (result_arcs res))), last (snd (arc2 (result_arcs res))))"
    "summit res =
       (np_exp (last (fst (arc2 (arcs_pixel ?f (brace_theta ?f) (brace_r ?f (Fin (1 / 10)))))) / xscale ?f
                + fst (ax_xlim ?f)),
        last (snd (arc2 (arcs_pixel ?f (brace_theta ?f) (brace_r ?f (Fin (1 / 10)))))) / yscale ?f
          + fst (ax_ylim ?f))"
    by (auto simp: Let_def l to_frame_fp_exact brace_theta_fp_exact brace_r_fp_exact
        arcs_pixel_fp_exact)
  have s: "summit res = (np_exp (Fin 200 / Fin (400 / ln 100) + Fin 0), Fin 80 / Fin 150 + Fin 0)"
    by (simp only: r(4) log_theta log_r log_pixel_summit)
      (simp add: log_frame)
  have "200 / (400 / ln (100::real)) = ln 10"
    by (simp add: ln_100)
  then have v: "summit res = (Fin 10, Fin (8 / 15))"
    by (simp add: s ln_100)
  have "is_fin (brace_theta ?f)" by (simp add: log_theta)
  from curlyBrace_returns [OF this, of "Fin (1 / 10)" "''Span''" 2] obtain calls where
    "curlyBrace log_host (Fin 1, Fin 0) (Fin 100, Fin 0) (Fin (1 / 10)) True ''Span'' 2 =
       (calls, Inr (brace_geometry log_host (Fin 1, Fin 0) (Fin 100, Fin 0) (Fin (1 / 10)) True))"
    by blast
  then have "curlyBrace_fp (\<lambda>x. x) log_host (Fin 1, Fin 0) (Fin 100, Fin 0) (Fin (1 / 10)) True ''Span'' 2 =
       (calls, Inr res)"
    using r(2) by (simp add: curlyBrace_fp_exact)
  with r(1,3) s v l show ?thesis by blast
qed



text \<open>
  Claim C7, as amended. In the range of float64: whenever the length of the chord in
  pixels (the \<^verbatim>\<open>np.hypot\<close> of line 239) is finite, that is when neither the
  conversion to pixels nor the two differences nor the length overflow, a call with
  \<open>k_r = 0\<close> returns, with or without a label. The radius is 0 and each of the four arcs
  is 50 copies of one point: in pixels \<^verbatim>\<open>arc1\<close> at the first endpoint,
  \<^verbatim>\<open>arc2\<close> and \<^verbatim>\<open>arc3\<close> at the midpoint \<open>(pt2 + pt1) / 2\<close> as lines 246-247
  compute it, \<^verbatim>\<open>arc4\<close> at the second endpoint. The summit is that midpoint converted
  back to the coordinates of the axes (divided by the scale factor, the lower limit
  added, the exponential applied on a logarithmic axis), and the returned arcs sit at
  the conversions of the first endpoint, the midpoint, the midpoint and the second
  endpoint. (The endpoints need not differ.)
\<close>

theorem zero_gain_collapses_arcs:
  assumes "is_fin (brace_chord_fp overflow (to_frame_fp overflow h p1 p2 bool_auto))"
  shows "(let f = to_frame_fp overflow h p1 p2 bool_auto;
              mx = overflow (overflow (fst (pt2 f) + fst (pt1 f)) / Fin 2);
              my = overflow (overflow (snd (pt2 f) + snd (pt1 f)) / Fin 2);
              inv_x = (\<lambda>v. let w = overflow (overflow (v / xscale f) + fst (ax_xlim f))
                           in if is_log (get_xscale h) then overflow (np_exp w) else w);
              inv_y = (\<lambda>v. let w = overflow (overflow (v / yscale f) + fst (ax_ylim f))
                           in if is_log (get_yscale h) then overflow (np_exp w) else w)
          in brace_r_fp overflow f (Fin 0) = Fin 0 \<and>
             arcs_pixel_fp overflow f (brace_theta_fp overflow f) (brace_r_fp overflow f (Fin 0)) =
               \<lparr> arc1 = (replicate 50 (fst (pt1 f)), replicate 50 (snd (pt1 f))),
                 arc2 = (replicate 50 mx, replicate 50 my),
                 arc3 = (replicate 50 mx, replicate 50 my),
                 arc4 = (replicate 50 (fst (pt2 f)), replicate 50 (snd (pt2 f))) \<rparr> \<and>
             (\<exists>calls res.
                curlyBrace_fp overflow h p1 p2 (Fin 0) bool_auto str_text n = (calls, Inr res) \<and>
                summit res = (inv_x mx, inv_y my) \<and>
                arc1 (result_arcs res) =
                  (replicate 50 (inv_x (fst (pt1 f))), replicate 50 (inv_y (snd (pt1 f)))) \<and>
                arc2 (result_arcs res) =
                  (replicate 50 (fst (summit res)), replicate 50 (snd (summit res))) \<and>
                arc3 (result_arcs res) =
                  (replicate 50 (fst (summit res)), replicate 50 (snd (summit res))) \<and>
                arc4 (result_arcs res) =
                  (replicate 50 (inv_x (fst (pt2 f))), replicate 50 (inv_y (snd (pt2 f))))))"
  unfolding Let_def
  by (rule zero_gain_back [OF assms, unfolded Let_def back_x_fp_def back_y_fp_def])

theorem zero_gain_collapses_arcs_witness:
  "is_fin (brace_chord_fp overflow (to_frame_fp overflow scenario_host (Fin 0, Fin 0) (Fin 1, Fin 1) True)) \<and>
   brace_r_fp overflow (to_frame_fp overflow scenario_host (Fin 0, Fin 0) (Fin 1, Fin 1) True) (Fin 0) = Fin 0 \<and>
   (\<exists>calls res.
      curlyBrace_fp overflow scenario_host (Fin 0, Fin 0) (Fin 1, Fin 1) (Fin 0) True ''Span'' 2 =
        (calls, Inr res) \<and>
      arc1 (result_arcs res) = (replicate 50 (Fin 0), replicate 50 (Fin 0)) \<and>
      arc2 (result_arcs res) = (replicate 50 (Fin (1 / 2)), replicate 50 (Fin (1 / 2))) \<and>
      arc3 (result_arcs res) = (replicate 50 (Fin (1 / 2)), replicate 50 (Fin (1 / 2))) \<and>
      arc4 (result_arcs res) = (replicate 50 (Fin 1), replicate 50 (Fin 1)) \<and>
      summit res = (Fin (1 / 2), Fin (1 / 2)))"
proof -
  let ?f = "to_frame_fp overflow scenario_host (Fin 0, Fin 0) (Fin 1, Fin 1) True"
  have fin: "is_fin (brace_chord_fp overflow ?f)"
    by (simp add: scenario_chord_fp)
  have b: "back_x_fp overflow scenario_host ?f (Fin 0) = Fin 0"
    "back_y_fp overflow scenario_host ?f (Fin 0) = Fin 0"
    "back_x_fp overflow scenario_host ?f (Fin 100) = Fin (1 / 2)"
    "back_y_fp overflow scenario_host ?f (Fin 75) = Fin (1 / 2)"
    "back_x_fp overflow scenario_host ?f (Fin 200) = Fin 1"
    "back_y_fp overflow scenario_host ?f (Fin 150) = Fin 1"
    by (simp_all add: back_x_fp_def back_y_fp_def scenario_frame_fp Let_def overflow_small)
      (simp_all add: scenario_host_def is_log_linear)
  have m: "overflow (overflow (Fin 200 + Fin 0) / Fin 2) = Fin 100"
    "overflow (overflow (Fin 150 + Fin 0) / Fin 2) = Fin 75"
    by (simp_all add: overflow_small)
  have p: "fst (pt1 ?f) = Fin 0" "snd (pt1 ?f) = Fin 0" "fst (pt2 ?f) = Fin 200" "snd (pt2 ?f) = Fin 150"
    by (simp_all add: scenario_frame_fp)
  from zero_gain_collapses_arcs [OF fin, of "''Span''" 2, unfolded Let_def p m b [unfolded back_x_fp_def back_y_fp_def Let_def]]
  obtain calls res where w:
    "brace_r_fp overflow ?f (Fin 0) = Fin 0"
    "curlyBrace_fp overflow scenario_host (Fin 0, Fin 0) (Fin 1, Fin 1) (Fin 0) True ''Span'' 2 =
       (calls, Inr res)"
    "summit res = (Fin (1 / 2), Fin (1 / 2))"
    "arc1 (result_arcs res) = (replicate 50 (Fin 0), replicate 50 (Fin 0))"
    "arc2 (result_arcs res) = (replicate 50 (fst (summit res)), replicate 50 (snd (summit res)))"
    "arc3 (result_arcs res) = (replicate 50 (fst (summit res)), replicate 50 (snd (summit res)))"
    "arc4 (result_arcs res) = (replicate 50 (Fin 1), replicate 50 (Fin 1))"
    by blast
  show ?thesis
    using fin w by auto
qed

text \<open>
  Claim C7 as stated fails when the difference of the endpoints overflows. Let \<open>M\<close> be
  the largest finite float64. For \<open>p1 = (-M, 0)\<close>, \<open>p2 = (M, 0)\<close>, \<open>k_r = 0\<close> and no
  automatic scaling, the endpoints are finite and distinct and the call is valid; the
  difference \<open>M - (-M)\<close> is infinite, so is the length of the chord, the radius is
  \<open>inf * 0 = NaN\<close>, and every coordinate of every returned arc is NaN.
\<close>

theorem zero_gain_overflow_counterexample:
  "valid_call scenario_host (Fin (- float_max), Fin 0) (Fin float_max, Fin 0) (Fin 0) \<and>
   overflow (Fin (- float_max)) = Fin (- float_max) \<and>
   overflow (Fin float_max) = Fin float_max \<and>
   overflow (Fin float_max - Fin (- float_max)) = PInf \<and>
   brace_chord_fp overflow
     (to_frame_fp overflow scenario_host (Fin (- float_max), Fin 0) (Fin float_max, Fin 0) False) = PInf \<and>
   brace_r_fp overflow
     (to_frame_fp overflow scenario_host (Fin (- float_max), Fin 0) (Fin float_max, Fin 0) False)
     (Fin 0) = NaN \<and>
   snd (curlyBrace_fp overflow scenario_host (Fin (- float_max), Fin 0) (Fin float_max, Fin 0)
          (Fin 0) False [] 2) =
     Inr \<lparr> theta = Fin 0, summit = (NaN, NaN), result_arcs = nan_arcs \<rparr>"
proof -
  let ?f = "to_frame_fp overflow scenario_host (Fin (- float_max), Fin 0) (Fin float_max, Fin 0) False"
  have v: "valid_call scenario_host (Fin (- float_max), Fin 0) (Fin float_max, Fin 0) (Fin 0)"
    by (simp add: valid_call_def scenario_host_def getAxSize_def is_log_linear)
  have o: "overflow (Fin float_max - Fin (- float_max)) = PInf"
    by (simp add: minus_npfloat_def overflow_max)
  have c: "brace_chord_fp overflow ?f = PInf"
    by (simp add: brace_chord_fp_def max_frame_fp minus_npfloat_def overflow_max)
  have r: "brace_r_fp overflow ?f (Fin 0) = NaN"
    by (simp add: brace_r_fp_def c)
  have t: "brace_theta_fp overflow ?f = Fin 0"
    by (simp add: brace_theta_fp_def max_frame_fp minus_npfloat_def overflow_max)
  have g: "brace_geometry_fp overflow scenario_host (Fin (- float_max), Fin 0) (Fin float_max, Fin 0)
      (Fin 0) False = \<lparr> theta = Fin 0, summit = (NaN, NaN), result_arcs = nan_arcs \<rparr>"
    using geometry_fp_nan [of scenario_host "(Fin (- float_max), Fin 0)" "(Fin float_max, Fin 0)"
        False "Fin 0"]
    by (simp only: r t arcs_pixel_fp_nan_r)
  show ?thesis
    by (intro conjI v overflow_max(1,2) o c r) (simp add: curlyBrace_fp_def Let_def g)
qed

text \<open>
  Claim C8, as amended. In the range of float64: for a call with \<open>p1 = p2\<close> and a finite
  gain, whenever the sums \<open>pt2 + pt1\<close> of lines 246-247 are finite (neither the
  conversion to pixels nor the midpoint overflows), the call returns, with or without a
  label; the radius is 0, the angle is 0, and all four arcs are 50 copies of one point:
  in pixels the endpoint, and as returned the endpoint in pixels converted back to the
  coordinates of the axes, which is also the summit. (With exact operations the
  conversion back gives \<open>p1\<close> itself: claim C9.)
\<close>

theorem zero_chord_is_defined:
  assumes "is_fin (overflow (fst (pt2 (to_frame_fp overflow h p p bool_auto)) +
                             fst (pt1 (to_frame_fp overflow h p p bool_auto))))"
    and "is_fin (overflow (snd (pt2 (to_frame_fp overflow h p p bool_auto)) +
                           snd (pt1 (to_frame_fp overflow h p p bool_auto))))"
    and "is_fin k_r"
  shows "(let f = to_frame_fp overflow h p p bool_auto;
              inv_x = (\<lambda>v. let w = overflow (overflow (v / xscale f) + fst (ax_xlim f))
                           in if is_log (get_xscale h) then overflow (np_exp w) else w);
              inv_y = (\<lambda>v. let w = overflow (overflow (v / yscale f) + fst (ax_ylim f))
                           in if is_log (get_yscale h) then overflow (np_exp w) else w);
              a = inv_x (fst (pt1 f));
              b = inv_y (snd (pt1 f))
          in brace_r_fp overflow f k_r = Fin 0 \<and>
             arcs_pixel_fp overflow f (brace_theta_fp overflow f) (brace_r_fp overflow f k_r) =
               \<lparr> arc1 = (replicate 50 (fst (pt1 f)), replicate 50 (snd (pt1 f))),
                 arc2 = (replicate 50 (fst (pt1 f)), replicate 50 (snd (pt1 f))),
                 arc3 = (replicate 50 (fst (pt1 f)), replicate 50 (snd (pt1 f))),
                 arc4 = (replicate 50 (fst (pt1 f)), replicate 50 (snd (pt1 f))) \<rparr> \<and>
             (\<exists>calls res.
                curlyBrace_fp overflow h p p k_r bool_auto str_text n = (calls, Inr res) \<and>
                theta res = Fin 0 \<and>
                arc1 (result_arcs res) = (replicate 50 a, replicate 50 b) \<and>
                arc2 (result_arcs res) = (replicate 50 a, replicate 50 b) \<and>
                arc3 (result_arcs res) = (replicate 50 a, replicate 50 b) \<and>
                arc4 (result_arcs res) = (replicate 50 a, replicate 50 b) \<and>
                summit res = (a, b)))"
  unfolding Let_def
  by (rule zero_chord_back [OF assms, unfolded Let_def back_x_fp_def back_y_fp_def])

theorem zero_chord_is_defined_witness:
  "is_fin (overflow (fst (pt2 (to_frame_fp overflow scenario_host (Fin 1, Fin 1) (Fin 1, Fin 1) True)) +
                     fst (pt1 (to_frame_fp overflow scenario_host (Fin 1, Fin 1) (Fin 1, Fin 1) True)))) \<and>
   is_fin (overflow (snd (pt2 (to_frame_fp overflow scenario_host (Fin 1, Fin 1) (Fin 1, Fin 1) True)) +
                     snd (pt1 (to_frame_fp overflow scenario_host (Fin 1, Fin 1) (Fin 1, Fin 1) True)))) \<and>
   is_fin (Fin (1 / 10)) \<and>
   pt1 (to_frame_fp overflow scenario_host (Fin 1, Fin 1) (Fin 1, Fin 1) True) = (Fin 200, Fin 150) \<and>
   brace_r_fp overflow (to_frame_fp overflow scenario_host (Fin 1, Fin 1) (Fin 1, Fin 1) True)
     (Fin (1 / 10)) = Fin 0 \<and>
   (\<exists>calls res.
      curlyBrace_fp overflow scenario_host (Fin 1, Fin 1) (Fin 1, Fin 1) (Fin (1 / 10)) True ''Span'' 2 =
        (calls, Inr res) \<and>
      theta res = Fin 0 \<and>
      arc1 (result_arcs res) = (replicate 50 (Fin 1), replicate 50 (Fin 1)) \<and>
      arc2 (result_arcs res) = (replicate 50 (Fin 1), replicate 50 (Fin 1)) \<and>
      arc3 (result_arcs res) = (replicate 50 (Fin 1), replicate 50 (Fin 1)) \<and>
      arc4 (result_arcs res) = (replicate 50 (Fin 1), replicate 50 (Fin 1)) \<and>
      summit res = (Fin 1, Fin 1))"
proof -
  let ?f = "to_frame_fp overflow scenario_host (Fin 1, Fin 1) (Fin 1, Fin 1) True"
  have fin: "is_fin (overflow (fst (pt2 ?f) + fst (pt1 ?f)))"
    "is_fin (overflow (snd (pt2 ?f) + snd (pt1 ?f)))" "is_fin (Fin (1 / 10))"
    by (simp_all add: unit_frame_fp overflow_small)
  have p: "pt1 ?f = (Fin 200, Fin 150)"
    by (simp add: unit_frame_fp)
  have b: "back_x_fp overflow scenario_host ?f (fst (Fin 200, Fin 150)) = Fin 1"
    "back_y_fp overflow scenario_host ?f (snd (Fin 200, Fin 150)) = Fin 1"
    by (simp_all add: back_x_fp_def back_y_fp_def unit_frame_fp Let_def overflow_small)
      (simp_all add: scenario_host_def is_log_linear)
  from zero_chord_is_defined [OF fin, of "''Span''" 2, unfolded Let_def p b [unfolded back_x_fp_def back_y_fp_def Let_def]]
  obtain calls res where w:
    "brace_r_fp overflow ?f (Fin (1 / 10)) = Fin 0"
    "curlyBrace_fp overflow scenario_host (Fin 1, Fin 1) (Fin 1, Fin 1) (Fin (1 / 10)) True ''Span'' 2 =
       (calls, Inr res)"
    "theta res = Fin 0"
    "arc1 (result_arcs res) = (replicate 50 (Fin 1), replicate 50 (Fin 1))"
    "arc2 (result_arcs res) = (replicate 50 (Fin 1), replicate 50 (Fin 1))"
    "arc3 (result_arcs res) = (replicate 50 (Fin 1), replicate 50 (Fin 1))"
    "arc4 (result_arcs res) = (replicate 50 (Fin 1), replicate 50 (Fin 1))"
    "summit res = (Fin 1, Fin 1)"
    by blast
  show ?thesis
    using fin p w by auto
qed

text \<open>
  Claim C8 as stated fails when the conversion to pixels overflows. Let \<open>M\<close> be the
  largest finite float64. In the scenario with automatic scaling (200 pixels per unit in
  x) and \<open>p1 = p2 = (M, 0)\<close> the call is valid; the pixel coordinate \<open>M * 200\<close> is
  infinite, the difference \<open>inf - inf\<close> is NaN, and so are the angle and the radius.
  Without a label the call returns a geometry that is NaN throughout, not arcs at
  \<open>p1\<close>; with the label \<open>Span\<close> it does not return: it raises after the six plot calls
  (line 350).
\<close>

theorem zero_chord_overflow_counterexample:
  "valid_call scenario_host (Fin float_max, Fin 0) (Fin float_max, Fin 0) (Fin (1 / 10)) \<and>
   overflow (Fin float_max) = Fin float_max \<and>
   overflow (Fin float_max * Fin 200) = PInf \<and>
   pt1 (to_frame_fp overflow scenario_host (Fin float_max, Fin 0) (Fin float_max, Fin 0) True) =
     (PInf, Fin 0) \<and>
   overflow (PInf - PInf) = NaN \<and>
   brace_r_fp overflow
     (to_frame_fp overflow scenario_host (Fin float_max, Fin 0) (Fin float_max, Fin 0) True)
     (Fin (1 / 10)) = NaN \<and>
   snd (curlyBrace_fp overflow scenario_host (Fin float_max, Fin 0) (Fin float_max, Fin 0)
          (Fin (1 / 10)) True [] 2) =
     Inr \<lparr> theta = NaN, summit = (NaN, NaN), result_arcs = nan_arcs \<rparr> \<and>
   snd (curlyBrace_fp overflow scenario_host (Fin float_max, Fin 0) (Fin float_max, Fin 0)
          (Fin (1 / 10)) True ''Span'' 2) = Inl UnboundLocalError"
proof -
  let ?f = "to_frame_fp overflow scenario_host (Fin float_max, Fin 0) (Fin float_max, Fin 0) True"
  have v: "valid_call scenario_host (Fin float_max, Fin 0) (Fin float_max, Fin 0) (Fin (1 / 10))"
    by (simp add: valid_call_def scenario_host_def getAxSize_def is_log_linear)
  have o: "overflow (Fin float_max * Fin 200) = PInf" "overflow (PInf - PInf) = NaN"
    by (simp_all add: overflow_max minus_npfloat_def)
  have p: "pt1 ?f = (PInf, Fin 0)"
    by (simp add: max_frame_auto_fp)
  have r: "brace_r_fp overflow ?f (Fin (1 / 10)) = NaN"
    by (simp add: brace_r_fp_def brace_chord_fp_def max_frame_auto_fp minus_npfloat_def)
  have t: "brace_theta_fp overflow ?f = NaN"
    by (simp add: brace_theta_fp_def max_frame_auto_fp minus_npfloat_def)
  have g: "brace_geometry_fp overflow scenario_host (Fin float_max, Fin 0) (Fin float_max, Fin 0)
      (Fin (1 / 10)) True = \<lparr> theta = NaN, summit = (NaN, NaN), result_arcs = nan_arcs \<rparr>"
    using geometry_fp_nan [of scenario_host "(Fin float_max, Fin 0)" "(Fin float_max, Fin 0)"
        True "Fin (1 / 10)"]
    by (simp only: r t arcs_pixel_fp_nan_r)
  show ?thesis
    by (intro conjI v overflow_max(1) o p r)
      (simp_all add: curlyBrace_fp_def Let_def g label_call_fp_nan)
qed

text \<open>
  Claim C9. On every valid call, in exact real arithmetic, the first sampled point of
  \<^verbatim>\<open>arc1\<close> as returned (after the conversion back to the coordinates of the axes)
  is \<open>p1\<close>, and the last sampled point of \<^verbatim>\<open>arc4\<close> is \<open>p2\<close>: the forward and the
  inverse transform compose to the identity on the two endpoints.
\<close>

theorem brace_anchored_at_endpoints:
  assumes "valid_call h p1 p2 k_r"
  shows "\<exists>calls res. curlyBrace h p1 p2 k_r bool_auto str_text n = (calls, Inr res) \<and>
           (hd (fst (arc1 (result_arcs res))), hd (snd (arc1 (result_arcs res)))) = p1 \<and>
           (last (fst (arc4 (result_arcs res))), last (snd (arc4 (result_arcs res)))) = p2"
proof -
  from curlyBrace_returns [OF theta_valid [OF assms]] obtain calls where
    c: "curlyBrace h p1 p2 k_r bool_auto str_text n =
          (calls, Inr (brace_geometry h p1 p2 k_r bool_auto))"
    by blast
  let ?f = "to_frame h p1 p2 bool_auto"
  from assms obtain X1 Y1 X2 Y2 xl xh yl yh sx sy k t r where g:
    "?f = \<lparr> pt1 = (Fin X1, Fin Y1), pt2 = (Fin X2, Fin Y2),
         ax_xlim = (Fin xl, Fin xh), ax_ylim = (Fin yl, Fin yh),
         xscale = Fin sx, yscale = Fin sy \<rparr>"
    "brace_theta ?f = Fin t" "brace_r ?f k_r = Fin r"
    "back_x h ?f (Fin X1) = fst p1" "back_x h ?f (Fin X2) = fst p2"
    "back_y h ?f (Fin Y1) = snd p1" "back_y h ?f (Fin Y2) = snd p2"
    by (rule geometry_fin [where bool_auto = bool_auto]) blast
  have p: "pt1 ?f = (Fin X1, Fin Y1)" "pt2 ?f = (Fin X2, Fin Y2)"
    by (simp_all add: g(1))
  have "hd (fst (arc1 (result_arcs (brace_geometry h p1 p2 k_r bool_auto)))) = fst p1"
    "hd (snd (arc1 (result_arcs (brace_geometry h p1 p2 k_r bool_auto)))) = snd p1"
    "last (fst (arc4 (result_arcs (brace_geometry h p1 p2 k_r bool_auto)))) = fst p2"
    "last (snd (arc4 (result_arcs (brace_geometry h p1 p2 k_r bool_auto)))) = snd p2"
    by (simp_all add: arcs_geometry data_arcs arcs_data_ends arcs_pixel_nonempty g(2,3)
        pixel_ends [OF p] g(4-7))
  then show ?thesis using c by (auto simp: prod_eq_iff)
qed

theorem brace_anchored_at_endpoints_witness:
  "valid_call log_host (Fin 2, Fin 0) (Fin 50, Fin 1) (Fin (1 / 10)) \<and>
   (\<exists>calls res. curlyBrace log_host (Fin 2, Fin 0) (Fin 50, Fin 1) (Fin (1 / 10)) True [] 2 =
        (calls, Inr res) \<and>
      (hd (fst (arc1 (result_arcs res))), hd (snd (arc1 (result_arcs res)))) = (Fin 2, Fin 0) \<and>
      (last (fst (arc4 (result_arcs res))), last (snd (arc4 (result_arcs res)))) = (Fin 50, Fin 1))"
  using brace_anchored_at_endpoints [OF log_host_valid, of True "[]" 2] log_host_valid
  by simp

text \<open>
  Claim C10. On every valid call, in exact real arithmetic, the last sampled point of
  \<^verbatim>\<open>arc2\<close> is the first sampled point of \<^verbatim>\<open>arc3\<close>: the two inner arcs share
  one point, the summit, which is finite. The calls made on the axes are exactly the
  four arcs, the segment from \<^verbatim>\<open>arc1\<close> to \<^verbatim>\<open>arc2\<close> and the segment from
  \<^verbatim>\<open>arc3\<close> to \<^verbatim>\<open>arc4\<close>, followed by the text at the summit when the label is
  not empty and by nothing when it is: no segment is drawn between \<^verbatim>\<open>arc2\<close> and
  \<^verbatim>\<open>arc3\<close>.
\<close>

theorem inner_arcs_meet_at_summit:
  assumes "valid_call h p1 p2 k_r"
  shows "\<exists>calls res label. curlyBrace h p1 p2 k_r bool_auto str_text n = (calls, Inr res) \<and>
           last (fst (arc2 (result_arcs res))) = hd (fst (arc3 (result_arcs res))) \<and>
           last (snd (arc2 (result_arcs res))) = hd (snd (arc3 (result_arcs res))) \<and>
           summit res = (hd (fst (arc3 (result_arcs res))), hd (snd (arc3 (result_arcs res)))) \<and>
           is_fin (fst (summit res)) \<and> is_fin (snd (summit res)) \<and>
           calls =
             [Plot (fst (arc1 (result_arcs res))) (snd (arc1 (result_arcs res))),
              Plot (fst (arc2 (result_arcs res))) (snd (arc2 (result_arcs res))),
              Plot (fst (arc3 (result_arcs res))) (snd (arc3 (result_arcs res))),
              Plot (fst (arc4 (result_arcs res))) (snd (arc4 (result_arcs res))),
              Plot [last (fst (arc1 (result_arcs res))), fst (arc2 (result_arcs res)) ! 1]
                   [last (snd (arc1 (result_arcs res))), snd (arc2 (result_arcs res)) ! 1],
              Plot [last (fst (arc3 (result_arcs res))), fst (arc4 (result_arcs res)) ! 1]
                   [last (snd (arc3 (result_arcs res))), snd (arc4 (result_arcs res)) ! 1]] @ label \<and>
           (if str_text = [] then label = []
            else \<exists>s rot. label = [Text (fst (summit res)) (snd (summit res)) s rot])"
proof -
  let ?g = "brace_geometry h p1 p2 k_r bool_auto"
  from curlyBrace_returns [OF theta_valid [OF assms]] obtain calls where
    c: "curlyBrace h p1 p2 k_r bool_auto str_text n = (calls, Inr ?g)"
    by blast
  let ?f = "to_frame h p1 p2 bool_auto"
  from assms obtain X1 Y1 X2 Y2 xl xh yl yh sx sy k t r where g:
    "?f = \<lparr> pt1 = (Fin X1, Fin Y1), pt2 = (Fin X2, Fin Y2),
         ax_xlim = (Fin xl, Fin xh), ax_ylim = (Fin yl, Fin yh),
         xscale = Fin sx, yscale = Fin sy \<rparr>"
    "brace_theta ?f = Fin t" "brace_r ?f k_r = Fin r"
    "\<And>v. is_fin (back_x h ?f (Fin v))" "\<And>v. is_fin (back_y h ?f (Fin v))"
    by (rule geometry_fin [where bool_auto = bool_auto]) blast
  have p: "pt1 ?f = (Fin X1, Fin Y1)" "pt2 ?f = (Fin X2, Fin Y2)"
    by (simp_all add: g(1))
  have e: "last (fst (arc2 (result_arcs ?g))) = hd (fst (arc3 (result_arcs ?g)))"
    "last (snd (arc2 (result_arcs ?g))) = hd (snd (arc3 (result_arcs ?g)))"
    by (simp_all add: arcs_geometry data_arcs arcs_data_ends arcs_pixel_nonempty g(2,3)
        pixel_ends [OF p])
  have s: "summit ?g = (hd (fst (arc3 (result_arcs ?g))), hd (snd (arc3 (result_arcs ?g))))"
    using e summit_geometry [of h p1 p2 k_r bool_auto] by simp
  have fin: "is_fin (fst (summit ?g))" "is_fin (snd (summit ?g))"
    by (simp_all add: s arcs_geometry data_arcs arcs_data_ends arcs_pixel_nonempty g(2,3)
        pixel_ends [OF p] g(4,5))
  from curlyBrace_calls [OF g(2), of k_r str_text n] obtain label where t:
    "calls =
     [Plot (fst (arc1 (result_arcs ?g))) (snd (arc1 (result_arcs ?g))),
      Plot (fst (arc2 (result_arcs ?g))) (snd (arc2 (result_arcs ?g))),
      Plot (fst (arc3 (result_arcs ?g))) (snd (arc3 (result_arcs ?g))),
      Plot (fst (arc4 (result_arcs ?g))) (snd (arc4 (result_arcs ?g))),
      Plot [last (fst (arc1 (result_arcs ?g))), fst (arc2 (result_arcs ?g)) ! 1]
           [last (snd (arc1 (result_arcs ?g))), snd (arc2 (result_arcs ?g)) ! 1],
      Plot [last (fst (arc3 (result_arcs ?g))), fst (arc4 (result_arcs ?g)) ! 1]
           [last (snd (arc3 (result_arcs ?g))), snd (arc4 (result_arcs ?g)) ! 1]] @ label"
    "if str_text = [] then label = []
     else \<exists>s rot. label = [Text (fst (summit ?g)) (snd (summit ?g)) s rot]"
    unfolding c fst_conv Let_def by blast
  show ?thesis using c e s fin t by blast
qed

theorem inner_arcs_meet_at_summit_witness:
  "valid_call log_host (Fin 2, Fin 0) (Fin 50, Fin 1) (Fin (1 / 10)) \<and>
   (\<exists>plots res s rot.
      curlyBrace log_host (Fin 2, Fin 0) (Fin 50, Fin 1) (Fin (1 / 10)) True ''Span'' 2 =
        (plots @ [Text (fst (summit res)) (snd (summit res)) s rot], Inr res) \<and>
      length plots = 6 \<and>
      last (fst (arc2 (result_arcs res))) = hd (fst (arc3 (result_arcs res))) \<and>
      last (snd (arc2 (result_arcs res))) = hd (snd (arc3 (result_arcs res))) \<and>
      summit res = (hd (fst (arc3 (result_arcs res))), hd (snd (arc3 (result_arcs res)))))"
proof -
  from inner_arcs_meet_at_summit [OF log_host_valid, of True "''Span''" 2]
  obtain calls res label where w:
    "curlyBrace log_host (Fin 2, Fin 0) (Fin 50, Fin 1) (Fin (1 / 10)) True ''Span'' 2 =
       (calls, Inr res)"
    "last (fst (arc2 (result_arcs res))) = hd (fst (arc3 (result_arcs res)))"
    "last (snd (arc2 (result_arcs res))) = hd (snd (arc3 (result_arcs res)))"
    "summit res = (hd (fst (arc3 (result_arcs res))), hd (snd (arc3 (result_arcs res))))"
    "calls =
       [Plot (fst (arc1 (result_arcs res))) (snd (arc1 (result_arcs res))),
        Plot (fst (arc2 (result_arcs res))) (snd (arc2 (result_arcs res))),
        Plot (fst (arc3 (result_arcs res))) (snd (arc3 (result_arcs res))),
        Plot (fst (arc4 (result_arcs res))) (snd (arc4 (result_arcs res))),
        Plot [last (fst (arc1 (result_arcs res))), fst (arc2 (result_arcs res)) ! 1]
             [last (snd (arc1 (result_arcs res))), snd (arc2 (result_arcs res)) ! 1],
        Plot [last (fst (arc3 (result_arcs res))), fst (arc4 (result_arcs res)) ! 1]
             [last (snd (arc3 (result_arcs res))), snd (arc4 (result_arcs res)) ! 1]] @ label"
    "if ''Span'' = [] then label = []
     else \<exists>s rot. label = [Text (fst (summit res)) (snd (summit res)) s rot]"
    by blast
  from w(6) obtain s rot where l: "label = [Text (fst (summit res)) (snd (summit res)) s rot]"
    by auto
  show ?thesis
    apply (intro conjI log_host_valid)
    apply (rule exI [of _ "[Plot (fst (arc1 (result_arcs res))) (snd (arc1 (result_arcs res))),
        Plot (fst (arc2 (result_arcs res))) (snd (arc2 (result_arcs res))),
        Plot (fst (arc3 (result_arcs res))) (snd (arc3 (result_arcs res))),
        Plot (fst (arc4 (result_arcs res))) (snd (arc4 (result_arcs res))),
        Plot [last (fst (arc1 (result_arcs res))), fst (arc2 (result_arcs res)) ! 1]
             [last (snd (arc1 (result_arcs res))), snd (arc2 (result_arcs res)) ! 1],
        Plot [last (fst (arc3 (result_arcs res))), fst (arc4 (result_arcs res)) ! 1]
             [last (snd (arc3 (result_arcs res))), snd (arc4 (result_arcs res)) ! 1]]"])
    apply (rule exI [of _ res], rule exI [of _ s], rule exI [of _ rot])
    using w(1-5) l apply simp
    done
qed

end
